theory Spec2Isabelle
  imports Complex_Main "HOL-Library.AList" "HOL-Library.Log_Nat"
begin

section \<open>Conventions of the embedding\<close>

text \<open>
  The Mocha study tracker is a browser extension written in JavaScript. Its
  calculation, points and storage utilities, the elapsed-time function of its
  service worker and the begin-session handler of its popup are embedded here
  function by function. The files are named as the sources import them; in the
  source tree \<open>calculations.js\<close> is \<open>src/unnamed/part_000\<close>, the popup script is
  \<open>src/unnamed/part_003\<close>, the service worker is \<open>src/unnamed/part_004\<close>, and the
  factory functions of the data model stand at the end of \<open>src/utils/storage.js\<close>.

  \<^item> A JavaScript number is a rational (\<^typ>\<open>rat\<close>), or an \<^typ>\<open>int\<close> where the
    code only ever counts. In the elapsed time of a session and in the hours of
    the weekly progress the rounding of every division, multiplication, addition
    and subtraction to an IEEE-754 double is written out: whole seconds and
    hundredths of hours are cut out of these results, and the cut depends on the
    rounding. The session points are computed in exact arithmetic. \<open>NaN\<close> and
    the infinities are outside the embedding.
  \<^item> An instant (\<open>Date.now()\<close>, or an ISO-8601 string read back with
    \<open>new Date(s).getTime()\<close>) is its number of milliseconds since the epoch.
  \<^item> The time zone of the host, which the code reads through the local-time
    methods of \<open>Date\<close>, is an argument of every function that calls one.
  \<^item> A date-only string \<open>YYYY-MM-DD\<close>, as produced by
    \<open>toISOString().split('T')[0]\<close>, is the number of the UTC day it names. The code
    compares such strings with \<open>===\<close>, \<open>>=\<close> and \<open><=\<close> only, and on four-digit
    years the lexicographic order of the strings is the order of the days.
  \<^item> A property that is \<open>string | null\<close> or \<open>number | null\<close> is an \<open>option\<close>;
    JavaScript truthiness is written out where the code tests a value.
  \<^item> An object used as a dictionary is looked up by its own keys. The names every
    object inherits (\<open>constructor\<close>, \<open>toString\<close>, ...) are neither goal ids, which
    \<open>createGoal\<close> builds as \<open>goal_\<close>, a time and a random suffix, nor difficulties.
  \<^item> A \<open>forEach\<close> whose body cannot throw is a \<^const>\<open>fold\<close>; one whose body can
    is the function \<open>forEach\<close> below, which stops at the first exception.
\<close>

type_synonym timestamp = int

type_synonym iso_date = int

definition msPerDay :: int where
  "msPerDay = 86400000"

definition Math_floor :: "rat \<Rightarrow> int" where
  "Math_floor x = \<lfloor>x\<rfloor>"

text \<open>\<open>Math.round\<close> rounds to the nearest integer, a tie going up.\<close>

definition Math_round :: "rat \<Rightarrow> int" where
  "Math_round x = \<lfloor>x + 1 / 2\<rfloor>"

subsection \<open>Doubles\<close>

text \<open>
  \<open>toDouble x\<close> is the double nearest to \<open>x\<close>, a tie going to the even significand:
  53 significant bits, scaled by the power of two of the binade of \<open>x\<close>. Exponent
  limits are left out; seconds and hours lie far inside them.
\<close>

definition pow2 :: "int \<Rightarrow> rat" where
  "pow2 e = (if 0 \<le> e then 2 ^ nat e else 1 / 2 ^ nat (- e))"

text \<open>The exponent \<open>e\<close> with \<open>2\<^sup>e \<le> |x| < 2\<^sup>e\<^sup>+\<^sup>1\<close>, for \<open>x \<noteq> 0\<close>.\<close>

definition binade :: "rat \<Rightarrow> int" where
  "binade x =
     (let (p, q) = quotient_of \<bar>x\<bar>;
          d = bitlen p - bitlen q
      in if pow2 d \<le> \<bar>x\<bar> then d else d - 1)"

definition roundTiesToEven :: "rat \<Rightarrow> int" where
  "roundTiesToEven t =
     (let r = \<lfloor>t\<rfloor>; f = t - of_int r
      in if f < 1 / 2 then r
         else if 1 / 2 < f then r + 1
         else if even r then r else r + 1)"

definition toDouble :: "rat \<Rightarrow> rat" where
  "toDouble x =
     (if x = 0 then 0
      else (let ulp = pow2 (binade x - 52)
            in of_int (roundTiesToEven (x / ulp)) * ulp))"

text \<open>The operators \<open>/\<close>, \<open>*\<close>, \<open>+\<close> and \<open>-\<close> on doubles.\<close>

definition js_div :: "rat \<Rightarrow> rat \<Rightarrow> rat" where
  "js_div a b = toDouble (a / b)"

definition js_mul :: "rat \<Rightarrow> rat \<Rightarrow> rat" where
  "js_mul a b = toDouble (a * b)"

definition js_add :: "rat \<Rightarrow> rat \<Rightarrow> rat" where
  "js_add a b = toDouble (a + b)"

definition js_sub :: "rat \<Rightarrow> rat \<Rightarrow> rat" where
  "js_sub a b = toDouble (a - b)"

subsection \<open>Dates\<close>

text \<open>\<open>new Date(t).toISOString().split('T')[0]\<close>: the UTC day of an instant.\<close>

definition toISODate :: "timestamp \<Rightarrow> iso_date" where
  "toISODate t = t div msPerDay"

text \<open>\<open>new Date(s)\<close> for a date-only string: midnight UTC of that day.\<close>

definition parseISODate :: "iso_date \<Rightarrow> timestamp" where
  "parseISODate d = d * msPerDay"

text \<open>
  The local-time methods of \<open>Date\<close> go through the time zone of the host.
  ECMAScript takes an instant \<open>t\<close> to the local time value
  \<open>LocalTime(t) = t + LocalTZA(t, true)\<close> and a local time value \<open>l\<close> back to the
  instant \<open>UTC(l) = l - LocalTZA(l, false)\<close>, where \<open>LocalTZA\<close> is the offset of
  local time from UTC, in milliseconds, in force at that instant or local time. A
  host is these two offset functions. Where there is no daylight-saving time
  both are one constant (\<open>fixedOffset\<close>); where there is, the offset steps at the
  changes, and a local calendar day has 23 or 25 hours there.
\<close>

record Host =
  offsetAtUTC :: "timestamp \<Rightarrow> int"
  offsetAtLocal :: "int \<Rightarrow> int"

definition LocalTime :: "Host \<Rightarrow> timestamp \<Rightarrow> int" where
  "LocalTime host t = t + offsetAtUTC host t"

definition toUTC :: "Host \<Rightarrow> int \<Rightarrow> timestamp" where
  "toUTC host l = l - offsetAtLocal host l"

definition fixedOffset :: "int \<Rightarrow> Host" where
  "fixedOffset tz = \<lparr>offsetAtUTC = (\<lambda>t. tz), offsetAtLocal = (\<lambda>l. tz)\<rparr>"

text \<open>\<open>d.getDay()\<close>: the day of the week of the local date, Sunday being 0. Day 0 of
  the epoch was a Thursday.\<close>

definition Date_getDay :: "Host \<Rightarrow> timestamp \<Rightarrow> int" where
  "Date_getDay host t = (LocalTime host t div msPerDay + 4) mod 7"

text \<open>\<open>d.setDate(d.getDate() + n)\<close>: the local date moved by \<open>n\<close> days, at the same
  local time of day.\<close>

definition Date_addDays :: "Host \<Rightarrow> timestamp \<Rightarrow> int \<Rightarrow> timestamp" where
  "Date_addDays host t n = toUTC host (LocalTime host t + n * msPerDay)"

text \<open>\<open>d.setHours(h, m, s, ms)\<close>: the same local date, at the given local time.\<close>

definition Date_setHours :: "Host \<Rightarrow> timestamp \<Rightarrow> int \<Rightarrow> int \<Rightarrow> int \<Rightarrow> int \<Rightarrow> timestamp" where
  "Date_setHours host t h m s ms =
     toUTC host ((LocalTime host t div msPerDay) * msPerDay
                 + (((h * 60 + m) * 60 + s) * 1000 + ms))"

subsection \<open>Constants (utils/constants.js)\<close>

definition secondsPerHour :: rat where
  "secondsPerHour = 3600"

section \<open>The active session (models/data-models.js)\<close>

record PomodoroSettings =
  workMinutes :: int
  breakMinutes :: int
  longBreakMinutes :: int
  longBreakInterval :: int

record ActiveSession =
  as_goalId :: string
  as_taskId :: "string option"
  as_startTime :: timestamp
  as_pausedAt :: "timestamp option"
  as_totalPausedDuration :: rat
  as_mode :: string
  as_pomodoroSettings :: "PomodoroSettings option"
  as_pomodorosCompleted :: int

section \<open>Elapsed time of the active session\<close>

text \<open>
  \<open>calculateElapsedTime\<close> of calculations.js. The clock read by \<open>Date.now()\<close>
  is the first argument; a \<open>null\<close> session is \<open>None\<close>. A stored \<open>pausedAt\<close> is a
  non-empty ISO string, so it is truthy exactly when it is not \<open>null\<close>. The
  difference of two instants is a difference of integers below \<open>2\<^sup>5\<^sup>3\<close> and exact.
\<close>

definition calculateElapsedTime :: "timestamp \<Rightarrow> ActiveSession option \<Rightarrow> int" where
  "calculateElapsedTime now activeSession =
     (case activeSession of
        None \<Rightarrow> 0
      | Some a \<Rightarrow>
          (let startTime = as_startTime a;
               endTime = (case as_pausedAt a of Some p \<Rightarrow> p | None \<Rightarrow> now);
               totalElapsed = js_div (of_int (endTime - startTime)) 1000;
               activeTime = js_sub totalElapsed (as_totalPausedDuration a)
           in max 0 (Math_floor activeTime)))"

text \<open>
  \<open>calculateElapsedTime\<close> of the background service worker, commented there as
  matching the logic in calculations.js. Its extra guard
  \<open>!activeSession.startTime\<close> and its \<open>totalPausedDuration || 0\<close> do nothing on a
  record of the data model: \<open>startTime\<close> is a non-empty string, and the only falsy
  number is the \<open>0\<close> it is replaced with.
\<close>

definition bg_calculateElapsedTime :: "timestamp \<Rightarrow> ActiveSession option \<Rightarrow> int" where
  "bg_calculateElapsedTime now activeSession =
     (case activeSession of
        None \<Rightarrow> 0
      | Some a \<Rightarrow>
          (let startTime = as_startTime a;
               elapsed = js_div (of_int (now - startTime)) 1000;
               elapsed = js_sub elapsed (as_totalPausedDuration a);
               elapsed =
                 (case as_pausedAt a of
                    Some pauseStart \<Rightarrow>
                      (let currentPauseDuration = js_div (of_int (now - pauseStart)) 1000
                       in js_sub elapsed currentPauseDuration)
                  | None \<Rightarrow> elapsed)
           in max 0 (Math_floor elapsed)))"

section \<open>The reward engine (utils/points.js)\<close>

definition POINTS_PER_HOUR :: rat where
  "POINTS_PER_HOUR = 5"

definition TASK_COMPLETE_BONUS :: rat where
  "TASK_COMPLETE_BONUS = 5"

text \<open>The object literal \<open>{ easy: 5, medium: 10, hard: 15 }\<close>, looked up by key.\<close>

definition DIFFICULTY_BONUS :: "(string \<times> rat) list" where
  "DIFFICULTY_BONUS = [(''easy'', 5), (''medium'', 10), (''hard'', 15)]"

definition WEEKLY_GOAL_BONUS :: int where
  "WEEKLY_GOAL_BONUS = 50"

definition PERFECT_WEEK_BONUS :: int where
  "PERFECT_WEEK_BONUS = 100"

text \<open>
  \<open>calculateSessionPoints(durationSeconds, taskCompleted, taskDifficulty)\<close>. The test
  \<open>taskDifficulty && DIFFICULTY_BONUS[taskDifficulty]\<close> holds for a non-empty
  string that is a key of the table with a non-zero value.
\<close>

definition calculateSessionPoints :: "rat \<Rightarrow> bool \<Rightarrow> string option \<Rightarrow> int" where
  "calculateSessionPoints durationSeconds taskCompleted taskDifficulty =
     (let hours = durationSeconds / secondsPerHour;
          points = hours * POINTS_PER_HOUR;
          points =
            (if taskCompleted then
               (let points = points + TASK_COMPLETE_BONUS
                in case taskDifficulty of
                     None \<Rightarrow> points
                   | Some d \<Rightarrow>
                       (if d = [] then points
                        else case map_of DIFFICULTY_BONUS d of
                               None \<Rightarrow> points
                             | Some b \<Rightarrow> (if b = 0 then points else points + b)))
             else points)
      in Math_round points)"

subsection \<open>Goals and weekly progress\<close>

record Goal =
  g_id :: string
  g_name :: string
  g_category :: string
  g_icon :: string
  g_color :: string
  trackHours :: bool
  weeklyHourGoal :: "rat option"
  trackTasks :: bool
  weeklyTaskGoal :: "int option"
  taskUnit :: string
  g_createdAt :: timestamp
  archived :: bool

record GoalProgress =
  hoursCompleted :: rat
  tasksCompleted :: int

text \<open>
  The \<open>goals\<close> property of a weekly progress is a plain object keyed by goal id. It
  is an association list here: a key is looked up with \<^const>\<open>map_of\<close>, and
  assigning to a key keeps the position of a key that exists and appends a new one,
  as the insertion order of the object does.
\<close>

record WeeklyProgress =
  wp_weekStart :: iso_date
  wp_weekEnd :: iso_date
  wp_goals :: "(string \<times> GoalProgress) list"
  totalHours :: rat
  totalTasks :: int

record WeeklyBonus =
  goalBonuses :: "(string \<times> int) list"
  perfectWeekBonus :: int
  wb_total :: int

text \<open>The local variables of \<open>calculateWeeklyBonus\<close> that its loop assigns.\<close>

record BonusLoop =
  bl_result :: WeeklyBonus
  allGoalsMet :: bool
  anyGoalsMet :: bool

text \<open>
  The body of \<open>goals.forEach\<close> in \<open>calculateWeeklyBonus\<close>. The tests
  \<open>goal.trackHours && goal.weeklyHourGoal\<close> and \<open>goal.trackTasks && goal.weeklyTaskGoal\<close>
  hold when tracking is on and the target is truthy: a target that is \<open>null\<close> or
  \<open>0\<close> switches the comparison off.
\<close>

definition weeklyBonus_visit :: "WeeklyProgress \<Rightarrow> Goal \<Rightarrow> BonusLoop \<Rightarrow> BonusLoop" where
  "weeklyBonus_visit weeklyProgress goal st =
     (if archived goal then st
      else case map_of (wp_goals weeklyProgress) (g_id goal) of
             None \<Rightarrow> st
           | Some progress \<Rightarrow>
               (let goalMet = True;
                    goalMet =
                      (case weeklyHourGoal goal of
                         None \<Rightarrow> goalMet
                       | Some h \<Rightarrow>
                           (if trackHours goal \<and> h \<noteq> 0 then
                              (if hoursCompleted progress < h then False else goalMet)
                            else goalMet));
                    goalMet =
                      (case weeklyTaskGoal goal of
                         None \<Rightarrow> goalMet
                       | Some n \<Rightarrow>
                           (if trackTasks goal \<and> n \<noteq> 0 then
                              (if tasksCompleted progress < n then False else goalMet)
                            else goalMet))
                in if goalMet then
                     st\<lparr>bl_result :=
                          (bl_result st)
                            \<lparr>goalBonuses :=
                               AList.update (g_id goal) WEEKLY_GOAL_BONUS
                                 (goalBonuses (bl_result st)),
                             wb_total := wb_total (bl_result st) + WEEKLY_GOAL_BONUS\<rparr>,
                        anyGoalsMet := True\<rparr>
                   else st\<lparr>allGoalsMet := False\<rparr>))"

definition calculateWeeklyBonus :: "WeeklyProgress option \<Rightarrow> Goal list \<Rightarrow> WeeklyBonus" where
  "calculateWeeklyBonus weeklyProgress goals =
     (let result = \<lparr>goalBonuses = [], perfectWeekBonus = 0, wb_total = 0\<rparr>
      in case weeklyProgress of
           None \<Rightarrow> result
         | Some wp \<Rightarrow>
             (if goals = [] then result
              else
                (let st = fold (weeklyBonus_visit wp) goals
                            \<lparr>bl_result = result, allGoalsMet = True, anyGoalsMet = False\<rparr>
                 in if allGoalsMet st \<and> anyGoalsMet st then
                      (bl_result st)
                        \<lparr>perfectWeekBonus := PERFECT_WEEK_BONUS,
                         wb_total := wb_total (bl_result st) + PERFECT_WEEK_BONUS\<rparr>
                    else bl_result st)))"

section \<open>The weekly progress aggregator (calculations.js)\<close>

subsection \<open>Week boundaries\<close>

text \<open>
  \<open>getWeekStart\<close> and \<open>getWeekEnd\<close> work on the local calendar of the host
  (\<open>getDay\<close>, \<open>setDate\<close>, \<open>setHours\<close>).
\<close>

datatype WeekStartDay = Monday | Sunday

definition getWeekStart :: "Host \<Rightarrow> timestamp \<Rightarrow> WeekStartDay \<Rightarrow> timestamp" where
  "getWeekStart host date weekStartDay =
     (let d = date;
          day = Date_getDay host d;
          diff = (if weekStartDay = Monday then (if day = 0 then 6 else day - 1) else day);
          d = Date_addDays host d (- diff);
          d = Date_setHours host d 0 0 0 0
      in d)"

definition getWeekEnd :: "Host \<Rightarrow> timestamp \<Rightarrow> WeekStartDay \<Rightarrow> timestamp" where
  "getWeekEnd host date weekStartDay =
     (let weekStart = getWeekStart host date weekStartDay;
          weekEnd = Date_addDays host weekStart 6;
          weekEnd = Date_setHours host weekEnd 23 59 59 999
      in weekEnd)"

subsection \<open>Sessions and tasks\<close>

record Session =
  s_id :: string
  s_goalId :: string
  s_startTime :: timestamp
  s_endTime :: timestamp
  s_duration :: rat
  s_mode :: string
  s_pomodorosCompleted :: int
  s_taskId :: "string option"
  s_taskCompleted :: bool
  s_pointsEarned :: int
  s_pausedDuration :: rat
  s_isManual :: bool
  s_notes :: string
  s_createdAt :: timestamp

record Task =
  t_id :: string
  t_goalId :: string
  t_name :: string
  t_completed :: bool
  t_completedAt :: "timestamp option"
  t_dueDate :: "timestamp option"
  t_difficulty :: string
  t_notes :: string
  t_timeSpent :: rat
  t_sessionId :: "string option"
  t_createdAt :: timestamp

subsection \<open>The aggregation\<close>

text \<open>
  Reading a property of \<open>progress.goals[id]\<close> when the object has no such key
  throws a \<open>TypeError\<close>; the two updates \<open>addHours\<close> and \<open>addTask\<close> below are the
  places where that could happen.
\<close>

datatype js_error = TypeError

fun forEach :: "('a \<Rightarrow> 's \<Rightarrow> js_error + 's) \<Rightarrow> 'a list \<Rightarrow> 's \<Rightarrow> js_error + 's" where
  "forEach body [] st = Inr st"
| "forEach body (x # xs) st =
     (case body x st of
        Inl e \<Rightarrow> Inl e
      | Inr st' \<Rightarrow> forEach body xs st')"

text \<open>\<open>progress.goals[goal.id] = { hoursCompleted: 0, tasksCompleted: 0 }\<close>.\<close>

definition initGoal :: "Goal \<Rightarrow> WeeklyProgress \<Rightarrow> WeeklyProgress" where
  "initGoal goal progress =
     progress\<lparr>wp_goals :=
       AList.update (g_id goal) \<lparr>hoursCompleted = 0, tasksCompleted = 0\<rparr> (wp_goals progress)\<rparr>"

text \<open>\<open>progress.goals[id].hoursCompleted += hours\<close>.\<close>

definition addHours :: "string \<Rightarrow> rat \<Rightarrow> WeeklyProgress \<Rightarrow> js_error + WeeklyProgress" where
  "addHours goalId hours progress =
     (case map_of (wp_goals progress) goalId of
        None \<Rightarrow> Inl TypeError
      | Some entry \<Rightarrow>
          Inr (progress\<lparr>wp_goals :=
                 AList.update goalId
                   (entry\<lparr>hoursCompleted := js_add (hoursCompleted entry) hours\<rparr>)
                   (wp_goals progress)\<rparr>))"

text \<open>\<open>progress.goals[id].tasksCompleted += 1\<close>.\<close>

definition addTask :: "string \<Rightarrow> WeeklyProgress \<Rightarrow> js_error + WeeklyProgress" where
  "addTask goalId progress =
     (case map_of (wp_goals progress) goalId of
        None \<Rightarrow> Inl TypeError
      | Some entry \<Rightarrow>
          Inr (progress\<lparr>wp_goals :=
                 AList.update goalId (entry\<lparr>tasksCompleted := tasksCompleted entry + 1\<rparr>)
                   (wp_goals progress)\<rparr>))"

text \<open>The body of \<open>sessions.forEach\<close>.\<close>

definition sessionVisit ::
  "iso_date \<Rightarrow> iso_date \<Rightarrow> Session \<Rightarrow> WeeklyProgress \<Rightarrow> js_error + WeeklyProgress" where
  "sessionVisit weekStart weekEnd session progress =
     (let sessionDate = toISODate (s_startTime session);
          inRange = (weekStart \<le> sessionDate \<and> sessionDate \<le> weekEnd);
          goalExists = (map_of (wp_goals progress) (s_goalId session) \<noteq> None)
      in if inRange then
           (if goalExists then
              (let hours = js_div (s_duration session) secondsPerHour
               in case addHours (s_goalId session) hours progress of
                    Inl e \<Rightarrow> Inl e
                  | Inr progress \<Rightarrow>
                      Inr (progress\<lparr>totalHours := js_add (totalHours progress) hours\<rparr>))
            else Inr progress)
         else Inr progress)"

text \<open>The body of \<open>tasks.forEach\<close>.\<close>

definition taskVisit ::
  "iso_date \<Rightarrow> iso_date \<Rightarrow> Task \<Rightarrow> WeeklyProgress \<Rightarrow> js_error + WeeklyProgress" where
  "taskVisit weekStart weekEnd task progress =
     (if t_completed task then
        (case t_completedAt task of
           None \<Rightarrow> Inr progress
         | Some completedAt \<Rightarrow>
             (let completedDate = toISODate completedAt
              in if weekStart \<le> completedDate \<and> completedDate \<le> weekEnd then
                   (if map_of (wp_goals progress) (t_goalId task) \<noteq> None then
                      (case addTask (t_goalId task) progress of
                         Inl e \<Rightarrow> Inl e
                       | Inr progress \<Rightarrow> Inr (progress\<lparr>totalTasks := totalTasks progress + 1\<rparr>))
                    else Inr progress)
                 else Inr progress))
      else Inr progress)"

text \<open>\<open>Math.round(x * 100) / 100\<close>, on doubles.\<close>

definition roundHours :: "rat \<Rightarrow> rat" where
  "roundHours x = js_div (of_int (Math_round (js_mul x 100))) 100"

text \<open>
  The last pass rounds the total and, for every key of \<open>progress.goals\<close>, the hours
  of its entry. The keys are the object's own, so no lookup can fail.
\<close>

definition roundProgress :: "WeeklyProgress \<Rightarrow> WeeklyProgress" where
  "roundProgress progress =
     progress\<lparr>totalHours := roundHours (totalHours progress),
              wp_goals :=
                map (\<lambda>(goalId, entry).
                       (goalId, entry\<lparr>hoursCompleted := roundHours (hoursCompleted entry)\<rparr>))
                  (wp_goals progress)\<rparr>"

text \<open>
  \<open>calculateWeeklyProgress(sessions, tasks, goals, weekStart)\<close>, run on a host. The
  console output of the function is not part of the model.
\<close>

definition calculateWeeklyProgress ::
  "Host \<Rightarrow> Session list \<Rightarrow> Task list \<Rightarrow> Goal list \<Rightarrow> iso_date \<Rightarrow> js_error + WeeklyProgress" where
  "calculateWeeklyProgress host sessions tasks goals weekStart =
     (let weekEnd = toISODate (getWeekEnd host (parseISODate weekStart) Monday);
          progress = \<lparr>wp_weekStart = weekStart, wp_weekEnd = weekEnd, wp_goals = [],
                      totalHours = 0, totalTasks = 0\<rparr>;
          progress = fold initGoal goals progress
      in case forEach (sessionVisit weekStart weekEnd) sessions progress of
           Inl e \<Rightarrow> Inl e
         | Inr progress \<Rightarrow>
             (case forEach (taskVisit weekStart weekEnd) tasks progress of
                Inl e \<Rightarrow> Inl e
              | Inr progress \<Rightarrow> Inr (roundProgress progress)))"

section \<open>Gamification and storage (utils/storage.js)\<close>

record Gamification =
  totalPoints :: int
  lifetimePoints :: int
  pointsThisWeek :: int
  currentStreak :: int
  longestStreak :: int
  lastStudyDate :: "iso_date option"

definition createGamification :: Gamification where
  "createGamification =
     \<lparr>totalPoints = 0, lifetimePoints = 0, pointsThisWeek = 0,
      currentStreak = 0, longestStreak = 0, lastStudyDate = None\<rparr>"

text \<open>
  \<open>chrome.storage.local\<close>, as far as these functions use it: the two slots
  \<open>mocha_active_session\<close> and \<open>mocha_gamification\<close>, absent (\<open>None\<close>) or holding a
  value. \<open>rejecting\<close> says that the browser API throws on every call; the helpers
  \<open>get\<close> and \<open>set\<close> catch that, \<open>get\<close> answering its default and \<open>set\<close> answering
  \<open>false\<close> with nothing written.
\<close>

record Storage =
  slot_activeSession :: "ActiveSession option"
  slot_gamification :: "Gamification option"
  rejecting :: bool

definition saveActiveSession :: "ActiveSession \<Rightarrow> Storage \<Rightarrow> bool \<times> Storage" where
  "saveActiveSession activeSession store =
     (if rejecting store then (False, store)
      else (True, store\<lparr>slot_activeSession := Some activeSession\<rparr>))"

definition set_gamification :: "Gamification \<Rightarrow> Storage \<Rightarrow> bool \<times> Storage" where
  "set_gamification gamification store =
     (if rejecting store then (False, store)
      else (True, store\<lparr>slot_gamification := Some gamification\<rparr>))"

text \<open>\<open>getGamification\<close>: the stored record, or a fresh one when there is none.\<close>

definition getGamification :: "Storage \<Rightarrow> Gamification" where
  "getGamification store =
     (case (if rejecting store then None else slot_gamification store) of
        None \<Rightarrow> createGamification
      | Some gamification \<Rightarrow> gamification)"

text \<open>
  \<open>updatePoints(amount)\<close> returns the updated record and leaves the store as the
  write left it. \<open>getGamification\<close> never answers a falsy value, so the test
  \<open>!gamification\<close> that follows it is never true; and nothing inside the \<open>try\<close>
  block throws (the helpers catch their own errors), so the \<open>catch\<close> that would
  return \<open>null\<close> is never entered. Points are whole numbers: a session earns a
  \<open>Math.round\<close>, the shop takes a price.
\<close>

definition updatePoints :: "int \<Rightarrow> Storage \<Rightarrow> Gamification \<times> Storage" where
  "updatePoints amount store =
     (let gamification = getGamification store;
          gamification = gamification\<lparr>totalPoints := totalPoints gamification + amount\<rparr>;
          gamification =
            (if 0 < amount then
               gamification\<lparr>lifetimePoints := lifetimePoints gamification + amount,
                            pointsThisWeek := pointsThisWeek gamification + amount\<rparr>
             else gamification);
          gamification = gamification\<lparr>totalPoints := max 0 (totalPoints gamification)\<rparr>
      in (gamification, snd (set_gamification gamification store)))"

text \<open>
  \<open>updateStreak()\<close>, with the host and the clock as arguments. \<open>today\<close> is the UTC
  date of now; \<open>yesterday\<close> is the instant one local calendar day before now
  (\<open>setDate(getDate() - 1)\<close>), and \<open>yesterdayStr\<close> its UTC date. When the last study
  date is today the function returns before any write.
\<close>

definition updateStreak :: "Host \<Rightarrow> timestamp \<Rightarrow> Storage \<Rightarrow> Gamification \<times> Storage" where
  "updateStreak host now store =
     (let gamification = getGamification store;
          today = toISODate now
      in if lastStudyDate gamification = Some today then (gamification, store)
         else
           (let yesterday = Date_addDays host now (- 1);
                yesterdayStr = toISODate yesterday;
                gamification =
                  (if lastStudyDate gamification = Some yesterdayStr then
                     gamification\<lparr>currentStreak := currentStreak gamification + 1\<rparr>
                   else if lastStudyDate gamification = None then
                     gamification\<lparr>currentStreak := 1\<rparr>
                   else gamification\<lparr>currentStreak := 1\<rparr>);
                gamification =
                  gamification\<lparr>longestStreak :=
                    max (longestStreak gamification) (currentStreak gamification)\<rparr>;
                gamification = gamification\<lparr>lastStudyDate := Some today\<rparr>
            in (gamification, snd (set_gamification gamification store))))"

section \<open>Beginning a session (the popup script)\<close>

text \<open>\<open>createActiveSession(params)\<close>, with the clock as first argument.\<close>

definition createActiveSession ::
  "timestamp \<Rightarrow> string \<Rightarrow> string option \<Rightarrow> string \<Rightarrow> PomodoroSettings option \<Rightarrow> ActiveSession" where
  "createActiveSession now goalId taskId mode pomodoroSettings =
     \<lparr>as_goalId = goalId,
      as_taskId = (case taskId of None \<Rightarrow> None | Some t \<Rightarrow> if t = [] then None else Some t),
      as_startTime = now,
      as_pausedAt = None,
      as_totalPausedDuration = 0,
      as_mode = (if mode = [] then ''free'' else mode),
      as_pomodoroSettings = pomodoroSettings,
      as_pomodorosCompleted = 0\<rparr>"

datatype RuntimeMessage = SESSION_STARTED ActiveSession

text \<open>
  The state of the popup that \<open>handleBeginSession\<close> reads and writes: its module
  variables \<open>goals\<close>, \<open>activeSession\<close> and \<open>selectedGoalId\<close>, the storage, the text
  of the element \<open>session-goal-error\<close>, whether the start-session modal and the
  session bar are shown, and the messages and toasts sent so far. The timer text
  and the other elements of the page are left out.
\<close>

record Popup =
  p_goals :: "Goal list"
  p_activeSession :: "ActiveSession option"
  p_selectedGoalId :: "string option"
  p_storage :: Storage
  p_sessionGoalError :: string
  p_modalShown :: bool
  p_sessionBarShown :: bool
  p_sent :: "RuntimeMessage list"
  p_toasts :: "(string \<times> string) list"

text \<open>The session form: the checked mode and the value of the task selector.\<close>

record SessionForm =
  f_mode :: string
  f_taskSelect :: string

definition hideStartSessionModal :: "Popup \<Rightarrow> Popup" where
  "hideStartSessionModal st = st\<lparr>p_modalShown := False, p_selectedGoalId := None\<rparr>"

definition showActiveSession :: "Popup \<Rightarrow> Popup" where
  "showActiveSession st =
     (case p_activeSession st of
        None \<Rightarrow> st
      | Some a \<Rightarrow>
          (case find (\<lambda>g. g_id g = as_goalId a) (p_goals st) of
             None \<Rightarrow> st
           | Some goal \<Rightarrow> st\<lparr>p_sessionBarShown := True\<rparr>))"

text \<open>
  \<open>handleBeginSession()\<close>. Its only guard is \<open>!selectedGoalId\<close>, true of \<open>null\<close> and
  of the empty string.
\<close>

definition handleBeginSession :: "timestamp \<Rightarrow> SessionForm \<Rightarrow> Popup \<Rightarrow> Popup" where
  "handleBeginSession now form st =
     (case (case p_selectedGoalId st of
              None \<Rightarrow> None
            | Some g \<Rightarrow> if g = [] then None else Some g) of
        None \<Rightarrow> st\<lparr>p_sessionGoalError := ''Please select a goal''\<rparr>
      | Some selectedGoalId \<Rightarrow>
          (let mode = f_mode form;
               taskId = (if f_taskSelect form = [] then None else Some (f_taskSelect form));
               session = createActiveSession now selectedGoalId taskId mode None;
               st = st\<lparr>p_storage := snd (saveActiveSession session (p_storage st))\<rparr>;
               st = st\<lparr>p_activeSession := Some session\<rparr>;
               st = hideStartSessionModal st;
               st = showActiveSession st;
               st = st\<lparr>p_sent := p_sent st @ [SESSION_STARTED session]\<rparr>;
               st = st\<lparr>p_toasts := p_toasts st @ [(''Session started! Good luck!'', ''success'')]\<rparr>
           in st))"

section \<open>Notions used to state the properties\<close>

subsection \<open>Elapsed time\<close>

text \<open>
  The end of the time a session has been active so far: the current time while it
  runs, the time of the pause while it is paused. The time value of a \<open>Date\<close> is
  at most \<open>8.64 \<times> 10\<^sup>1\<^sup>5\<close> milliseconds away from the epoch.
\<close>

definition sessionEnd :: "timestamp \<Rightarrow> ActiveSession \<Rightarrow> timestamp" where
  "sessionEnd now a = (case as_pausedAt a of None \<Rightarrow> now | Some p \<Rightarrow> p)"

definition timeValue :: "timestamp \<Rightarrow> bool" where
  "timeValue t = (\<bar>t\<bar> \<le> 8640000000000000)"

subsection \<open>Weekly bonus\<close>

text \<open>
  A goal is evaluated when it is not archived and the progress has an entry for
  it. Its targets are met when, for hours and for tasks alike, tracking is off or
  the completed amount reaches the weekly target; a target that is absent is no
  target. The goals of the data model have positive targets or none
  (\<open>createGoal\<close> stores \<open>null\<close> in place of \<open>0\<close>, and the goal form refuses a target
  below 1), which is what \<open>targetsSet\<close> says.
\<close>

definition evaluated :: "WeeklyProgress \<Rightarrow> Goal \<Rightarrow> bool" where
  "evaluated wp goal = (\<not> archived goal \<and> map_of (wp_goals wp) (g_id goal) \<noteq> None)"

definition targetsMet :: "Goal \<Rightarrow> GoalProgress \<Rightarrow> bool" where
  "targetsMet goal progress =
     ((\<not> trackHours goal
       \<or> (case weeklyHourGoal goal of None \<Rightarrow> True | Some h \<Rightarrow> h \<le> hoursCompleted progress))
      \<and> (\<not> trackTasks goal
         \<or> (case weeklyTaskGoal goal of None \<Rightarrow> True | Some n \<Rightarrow> n \<le> tasksCompleted progress)))"

definition met :: "WeeklyProgress \<Rightarrow> Goal \<Rightarrow> bool" where
  "met wp goal =
     (case map_of (wp_goals wp) (g_id goal) of
        None \<Rightarrow> False
      | Some progress \<Rightarrow> targetsMet goal progress)"

definition targetsSet :: "Goal \<Rightarrow> bool" where
  "targetsSet goal = (weeklyHourGoal goal \<noteq> Some 0 \<and> weeklyTaskGoal goal \<noteq> Some 0)"

subsection \<open>Weekly progress\<close>

text \<open>
  The week end that \<open>calculateWeeklyProgress\<close> computes, and the sessions and tasks
  it counts for a set of known goal ids.
\<close>

definition weekEndOf :: "Host \<Rightarrow> iso_date \<Rightarrow> iso_date" where
  "weekEndOf host weekStart = toISODate (getWeekEnd host (parseISODate weekStart) Monday)"

definition inWeek :: "iso_date \<Rightarrow> iso_date \<Rightarrow> timestamp \<Rightarrow> bool" where
  "inWeek weekStart weekEnd t = (weekStart \<le> toISODate t \<and> toISODate t \<le> weekEnd)"

definition countedSession :: "iso_date \<Rightarrow> iso_date \<Rightarrow> string set \<Rightarrow> Session \<Rightarrow> bool" where
  "countedSession weekStart weekEnd known session =
     (inWeek weekStart weekEnd (s_startTime session) \<and> s_goalId session \<in> known)"

definition countedTask :: "iso_date \<Rightarrow> iso_date \<Rightarrow> string set \<Rightarrow> Task \<Rightarrow> bool" where
  "countedTask weekStart weekEnd known task =
     (t_completed task
      \<and> (case t_completedAt task of None \<Rightarrow> False | Some c \<Rightarrow> inWeek weekStart weekEnd c)
      \<and> t_goalId task \<in> known)"

text \<open>The hours of a list of sessions, added one after the other to an amount.\<close>

definition addHoursOf :: "rat \<Rightarrow> Session list \<Rightarrow> rat" where
  "addHoursOf amount sessions =
     foldl (\<lambda>amount s. toDouble (amount + toDouble (s_duration s / 3600))) amount sessions"

definition knownIds :: "WeeklyProgress \<Rightarrow> string set" where
  "knownIds progress = fst ` set (wp_goals progress)"

text \<open>The hours and the task count recorded for a goal id, zero when it has no entry.\<close>

definition hoursAt :: "WeeklyProgress \<Rightarrow> string \<Rightarrow> rat" where
  "hoursAt progress k =
     (case map_of (wp_goals progress) k of None \<Rightarrow> 0 | Some entry \<Rightarrow> hoursCompleted entry)"

definition tasksAt :: "WeeklyProgress \<Rightarrow> string \<Rightarrow> int" where
  "tasksAt progress k =
     (case map_of (wp_goals progress) k of None \<Rightarrow> 0 | Some entry \<Rightarrow> tasksCompleted entry)"

subsection \<open>Example data\<close>

definition demoGoal :: "string \<Rightarrow> Goal" where
  "demoGoal i =
     \<lparr>g_id = i, g_name = ''CS61B'', g_category = ''class'', g_icon = ''#'',
      g_color = ''#4A90A4'', trackHours = True, weeklyHourGoal = Some 10, trackTasks = False,
      weeklyTaskGoal = None, taskUnit = ''assignments'', g_createdAt = 1700000000000,
      archived = False\<rparr>"

definition demoRunning :: ActiveSession where
  "demoRunning =
     \<lparr>as_goalId = ''goal_1'', as_taskId = None, as_startTime = 1700000000000,
      as_pausedAt = None, as_totalPausedDuration = 0, as_mode = ''free'',
      as_pomodoroSettings = None, as_pomodorosCompleted = 0\<rparr>"

text \<open>
  The same session resumed after one pause of 900 ms, the resume having added
  \<open>900 / 1000\<close> to the pause time; and the same session paused one second after
  its start.
\<close>

definition demoResumed :: ActiveSession where
  "demoResumed = demoRunning\<lparr>as_totalPausedDuration := js_div 900 1000\<rparr>"

definition demoPaused :: ActiveSession where
  "demoPaused = demoRunning\<lparr>as_pausedAt := Some 1700000001000\<rparr>"

definition demoPopup :: "ActiveSession option \<Rightarrow> string option \<Rightarrow> Popup" where
  "demoPopup active selected =
     \<lparr>p_goals = [demoGoal ''goal_1'', demoGoal ''goal_2''],
      p_activeSession = active,
      p_selectedGoalId = selected,
      p_storage = \<lparr>slot_activeSession = active, slot_gamification = None, rejecting = False\<rparr>,
      p_sessionGoalError = [],
      p_modalShown = True,
      p_sessionBarShown = (active \<noteq> None),
      p_sent = [],
      p_toasts = []\<rparr>"

definition demoForm :: SessionForm where
  "demoForm = \<lparr>f_mode = ''free'', f_taskSelect = []\<rparr>"

definition demoStreakStore :: Storage where
  "demoStreakStore =
     \<lparr>slot_activeSession = None,
      slot_gamification =
        Some \<lparr>totalPoints = 120, lifetimePoints = 300, pointsThisWeek = 40,
              currentStreak = 4, longestStreak = 9, lastStudyDate = Some 19674\<rparr>,
      rejecting = False\<rparr>"

text \<open>
  Los Angeles around the end of daylight-saving time in 2024: seven hours behind
  UTC until 3 November, 09:00 UTC, which is 02:00 local time, and eight hours behind
  from then on. A local time that occurs twice is taken with the earlier offset.
  The store holds a streak of 4 with 3 November 2024 (day 20030) as last study
  date.
\<close>

definition losAngeles2024 :: Host where
  "losAngeles2024 =
     \<lparr>offsetAtUTC = (\<lambda>t. if t < 1730624400000 then - 25200000 else - 28800000),
      offsetAtLocal = (\<lambda>l. if l < 1730599200000 then - 25200000 else - 28800000)\<rparr>"

definition autumnStreakStore :: Storage where
  "autumnStreakStore =
     \<lparr>slot_activeSession = None,
      slot_gamification =
        Some \<lparr>totalPoints = 120, lifetimePoints = 300, pointsThisWeek = 40,
              currentStreak = 4, longestStreak = 9, lastStudyDate = Some 20030\<rparr>,
      rejecting = False\<rparr>"

definition demoProgress :: WeeklyProgress where
  "demoProgress =
     \<lparr>wp_weekStart = 19674, wp_weekEnd = 19680,
      wp_goals = [(''goal_1'', \<lparr>hoursCompleted = 10, tasksCompleted = 0\<rparr>),
                  (''goal_2'', \<lparr>hoursCompleted = 3, tasksCompleted = 1\<rparr>)],
      totalHours = 13, totalTasks = 1\<rparr>"

definition demoGoals :: "Goal list" where
  "demoGoals =
     [demoGoal ''goal_1'', (demoGoal ''goal_2'')\<lparr>archived := True\<rparr>, demoGoal ''goal_3'']"

definition demoSession :: "string \<Rightarrow> timestamp \<Rightarrow> rat \<Rightarrow> Session" where
  "demoSession goal start seconds =
     \<lparr>s_id = ''session_1'', s_goalId = goal, s_startTime = start,
      s_endTime = start + 7200000, s_duration = seconds, s_mode = ''free'',
      s_pomodorosCompleted = 0, s_taskId = None, s_taskCompleted = False, s_pointsEarned = 8,
      s_pausedDuration = 0, s_isManual = False, s_notes = [], s_createdAt = start + 7200000\<rparr>"

definition demoTask :: "string \<Rightarrow> timestamp option \<Rightarrow> Task" where
  "demoTask goal done =
     \<lparr>t_id = ''task_1'', t_goalId = goal, t_name = ''Project 1A'', t_completed = (done \<noteq> None),
      t_completedAt = done, t_dueDate = None, t_difficulty = ''medium'', t_notes = [],
      t_timeSpent = 0, t_sessionId = None, t_createdAt = 1699900000000\<rparr>"


definition demoTasks :: "Task list" where
  "demoTasks =
     [demoTask ''goal_1'' (Some 1700000000000),
      demoTask ''goal_9'' (Some 1700000000000),
      demoTask ''goal_1'' None]"

definition demoActiveGoals :: "Goal list" where
  "demoActiveGoals = [demoGoal ''goal_1'', demoGoal ''goal_2'']"

section \<open>Doubles: properties\<close>

lemma pow2_powi: "pow2 e = 2 powi e"
  by (simp add: pow2_def power_int_def inverse_eq_divide power_one_over)

lemma pow2_pos: "0 < pow2 e"
  by (simp add: pow2_powi)

lemma pow2_diff: "pow2 (a - b) = pow2 a / pow2 b"
  by (simp add: pow2_powi power_int_diff)

lemma pow2_nat: "0 \<le> e \<Longrightarrow> pow2 e = 2 ^ nat e"
  by (simp add: pow2_def)

lemma pow2_le_1: "e \<le> 0 \<Longrightarrow> pow2 e \<le> 1"
  by (simp add: pow2_def)

text \<open>The binade of \<open>x\<close> is the exponent of the power of two at or next below \<open>|x|\<close>.\<close>

lemma binade_bounds:
  assumes "x \<noteq> 0"
  shows "pow2 (binade x) \<le> \<bar>x\<bar> \<and> \<bar>x\<bar> < pow2 (binade x + 1)"
proof -
  obtain p q where pq: "quotient_of \<bar>x\<bar> = (p, q)" by (cases "quotient_of \<bar>x\<bar>")
  then have q: "0 < q" by (rule quotient_of_denom_pos)
  from pq have x: "\<bar>x\<bar> = of_int p / of_int q" by (rule quotient_of_div)
  from assms have "0 < \<bar>x\<bar>" by simp
  with x q have p: "0 < p" by (simp add: zero_less_divide_iff)
  define bp where "bp = bitlen p"
  define bq where "bq = bitlen q"
  from bitlen_bounds [OF p] have p1: "(2::int) ^ nat (bp - 1) \<le> p" and p2: "p < 2 ^ nat bp"
    by (simp_all add: bp_def)
  from bitlen_bounds [OF q] have q1: "(2::int) ^ nat (bq - 1) \<le> q" and q2: "q < 2 ^ nat bq"
    by (simp_all add: bq_def)
  from p have bp: "1 \<le> bp" unfolding bp_def by (simp add: bitlen_alt_def)
  from q have bq: "1 \<le> bq" unfolding bq_def by (simp add: bitlen_alt_def)
  have P1: "pow2 (bp - 1) \<le> of_int p"
  proof -
    from p1 have "(of_int ((2::int) ^ nat (bp - 1)) :: rat) \<le> of_int p"
      by (simp only: of_int_le_iff)
    with bp show ?thesis by (simp add: pow2_nat)
  qed
  have P2: "of_int p < pow2 bp"
  proof -
    from p2 have "(of_int p :: rat) < of_int ((2::int) ^ nat bp)"
      by (simp only: of_int_less_iff)
    with bp show ?thesis by (simp add: pow2_nat)
  qed
  have Q1: "pow2 (bq - 1) \<le> of_int q"
  proof -
    from q1 have "(of_int ((2::int) ^ nat (bq - 1)) :: rat) \<le> of_int q"
      by (simp only: of_int_le_iff)
    with bq show ?thesis by (simp add: pow2_nat)
  qed
  have Q2: "of_int q < pow2 bq"
  proof -
    from q2 have "(of_int q :: rat) < of_int ((2::int) ^ nat bq)"
      by (simp only: of_int_less_iff)
    with bq show ?thesis by (simp add: pow2_nat)
  qed
  have qpos: "(0::rat) < of_int q" using q by simp
  have lower: "pow2 (bp - bq - 1) \<le> \<bar>x\<bar>"
  proof -
    have "pow2 (bp - bq - 1) = pow2 (bp - 1) / pow2 bq"
      using pow2_diff [of "bp - 1" bq] by (simp add: algebra_simps)
    also have "\<dots> \<le> of_int p / pow2 bq"
      using P1 pow2_pos [of bq] by (simp add: divide_right_mono)
    also have "\<dots> \<le> of_int p / of_int q"
      using Q2 qpos p by (simp add: frac_le)
    finally show ?thesis by (simp add: x)
  qed
  have upper: "\<bar>x\<bar> < pow2 (bp - bq + 1)"
  proof -
    have "of_int p / of_int q < pow2 bp / of_int q"
      using P2 qpos by (simp add: divide_strict_right_mono)
    also have "\<dots> \<le> pow2 bp / pow2 (bq - 1)"
      using Q1 pow2_pos [of "bq - 1"] pow2_pos [of bp] by (simp add: frac_le)
    also have "\<dots> = pow2 (bp - bq + 1)"
      using pow2_diff [of bp "bq - 1"] by (simp add: algebra_simps)
    finally show ?thesis by (simp add: x)
  qed
  show ?thesis
  proof (cases "pow2 (bp - bq) \<le> \<bar>x\<bar>")
    case True
    then have "binade x = bp - bq"
      by (simp add: binade_def pq bp_def bq_def)
    with True upper show ?thesis by simp
  next
    case False
    then have "binade x = bp - bq - 1"
      by (simp add: binade_def pq bp_def bq_def)
    with False lower show ?thesis by simp
  qed
qed

lemma roundTiesToEven_err: "\<bar>of_int (roundTiesToEven t) - t\<bar> \<le> 1 / 2"
proof -
  define r where "r = \<lfloor>t\<rfloor>"
  have "of_int r \<le> t" "t < of_int r + 1"
    unfolding r_def by linarith+
  then show ?thesis
    unfolding roundTiesToEven_def Let_def r_def [symmetric]
    by (auto simp add: abs_if)
qed

lemma roundTiesToEven_int: "roundTiesToEven (of_int n) = n"
  by (simp add: roundTiesToEven_def Let_def)

text \<open>Rounding to a double moves a number by at most \<open>2\<^sup>-\<^sup>5\<^sup>3\<close> of its size.\<close>

lemma toDouble_err: "\<bar>toDouble x - x\<bar> \<le> \<bar>x\<bar> / 2 ^ 53"
proof (cases "x = 0")
  case True
  then show ?thesis by (simp add: toDouble_def)
next
  case False
  define ulp where "ulp = pow2 (binade x - 52)"
  have ulp: "0 < ulp" by (simp add: ulp_def pow2_pos)
  have ulp_eq: "ulp = pow2 (binade x) / 2 ^ 52"
    using pow2_diff [of "binade x" 52] by (simp add: ulp_def pow2_nat)
  have td: "toDouble x = of_int (roundTiesToEven (x / ulp)) * ulp"
    using False by (simp add: toDouble_def ulp_def Let_def)
  have "\<bar>toDouble x - x\<bar> = \<bar>of_int (roundTiesToEven (x / ulp)) - x / ulp\<bar> * ulp"
  proof -
    have "toDouble x - x = (of_int (roundTiesToEven (x / ulp)) - x / ulp) * ulp"
      using ulp by (simp add: td field_simps)
    then show ?thesis using ulp by (simp add: abs_mult)
  qed
  also have "\<dots> \<le> 1 / 2 * ulp"
    using roundTiesToEven_err [of "x / ulp"] ulp by (simp add: mult_right_mono)
  also have "\<dots> = pow2 (binade x) / 2 ^ 53"
    by (simp add: ulp_eq)
  also have "\<dots> \<le> \<bar>x\<bar> / 2 ^ 53"
    using binade_bounds [OF False] by (simp add: divide_right_mono)
  finally show ?thesis .
qed

text \<open>The integers below \<open>2\<^sup>5\<^sup>3\<close> are doubles.\<close>

lemma toDouble_int:
  assumes "\<bar>k\<bar> < 2 ^ 53"
  shows "toDouble (of_int k) = of_int k"
proof (cases "k = 0")
  case True
  then show ?thesis by (simp add: toDouble_def)
next
  case False
  define x :: rat where "x = of_int k"
  define e where "e = binade x"
  have x0: "x \<noteq> 0" using False by (simp add: x_def)
  from binade_bounds [OF x0] have lo: "pow2 e \<le> \<bar>x\<bar>" and hi: "\<bar>x\<bar> < pow2 (e + 1)"
    by (simp_all add: e_def)
  have ax: "\<bar>x\<bar> = of_int \<bar>k\<bar>" by (simp add: x_def)
  have "1 \<le> \<bar>k\<bar>" using False by simp
  then have "(1::rat) \<le> \<bar>x\<bar>" unfolding ax by (simp only: of_int_1_le_iff)
  with hi have "pow2 0 < pow2 (e + 1)" by (simp add: pow2_def)
  then have e0: "0 \<le> e"
    using pow2_le_1 [of "e + 1"] by (cases "0 \<le> e") (simp_all add: pow2_def)
  from assms have "\<bar>x\<bar> < 2 ^ 53" unfolding ax
    by (metis of_int_less_numeral_power_cancel_iff)
  with lo have "pow2 e < pow2 53" by (simp add: pow2_def)
  with e0 have "(2::rat) ^ nat e < 2 ^ 53" by (simp add: pow2_def)
  then have "nat e < 53"
    using power_strict_increasing_iff [of "2::rat" "nat e" 53] by simp
  with e0 have e52: "e \<le> 52" by simp
  define n where "n = nat (52 - e)"
  have ulp: "pow2 (e - 52) = 1 / 2 ^ n"
    using e52 by (cases "e = 52") (simp_all add: pow2_def n_def)
  have "x / pow2 (e - 52) = of_int (k * 2 ^ n)"
    by (simp add: ulp x_def)
  then have "roundTiesToEven (x / pow2 (e - 52)) = k * 2 ^ n"
    by (simp only: roundTiesToEven_int)
  then have "toDouble x = of_int (k * 2 ^ n) * (1 / 2 ^ n)"
    using x0 by (simp add: toDouble_def Let_def e_def [symmetric] ulp)
  then show ?thesis by (simp add: x_def)
qed

lemma toDouble_close:
  assumes "\<bar>x\<bar> \<le> 2 ^ 47"
  shows "\<bar>toDouble x - x\<bar> \<le> 1 / 64"
proof -
  have "\<bar>toDouble x - x\<bar> \<le> \<bar>x\<bar> / 2 ^ 53" by (rule toDouble_err)
  also have "\<dots> \<le> 2 ^ 47 / 2 ^ 53" using assms by (simp add: divide_right_mono)
  also have "\<dots> = (1::rat) / 64" by simp
  finally show ?thesis .
qed

lemma toDouble_3700: "toDouble 3700 = 3700"
  by code_simp

section \<open>Elapsed time: properties\<close>

lemma seconds_bound:
  assumes "timeValue t" and "timeValue u"
  shows "\<bar>(of_int (t - u) :: rat) / 1000\<bar> \<le> 2 ^ 45"
proof -
  from assms have "\<bar>t - u\<bar> \<le> 2 ^ 54" by (simp add: timeValue_def)
  then have "(of_int \<bar>t - u\<bar> :: rat) \<le> of_int (2 ^ 54)" by (simp only: of_int_le_iff)
  then have "\<bar>of_int (t - u) :: rat\<bar> \<le> 2 ^ 54" by simp
  then show ?thesis by simp
qed

lemma floor_close:
  fixes x y :: rat
  assumes "\<bar>x - y\<bar> < 1"
  shows "\<bar>max 0 \<lfloor>x\<rfloor> - max 0 \<lfloor>y\<rfloor>\<bar> \<le> 1"
proof -
  have "of_int \<lfloor>x\<rfloor> \<le> x" "x < of_int \<lfloor>x\<rfloor> + 1" "of_int \<lfloor>y\<rfloor> \<le> y" "y < of_int \<lfloor>y\<rfloor> + 1"
    by linarith+
  with assms have "(of_int \<lfloor>x\<rfloor> :: rat) < of_int \<lfloor>y\<rfloor> + 2" "(of_int \<lfloor>y\<rfloor> :: rat) < of_int \<lfloor>x\<rfloor> + 2"
    by linarith+
  then have "\<lfloor>x\<rfloor> < \<lfloor>y\<rfloor> + 2" "\<lfloor>y\<rfloor> < \<lfloor>x\<rfloor> + 2"
    by linarith+
  then show ?thesis by linarith
qed

text \<open>
  The quotient by 1000 and the subtraction of the pause time, each rounded, stay
  within \<open>1/32\<close> of the exact difference.
\<close>

lemma elapsed_close:
  assumes t: "timeValue t" and u: "timeValue u" and p: "\<bar>tpd\<bar> \<le> (2::rat) ^ 45"
  shows "\<bar>js_sub (js_div (of_int (t - u)) 1000) tpd - (of_int (t - u) / 1000 - tpd)\<bar> \<le> 1 / 32
         \<and> \<bar>js_sub (js_div (of_int (t - u)) 1000) tpd\<bar> \<le> 2 ^ 46 + 1 / 32"
proof -
  define a0 :: rat where "a0 = of_int (t - u) / 1000"
  define a1 where "a1 = toDouble a0"
  define x where "x = toDouble (a1 - tpd)"
  have a0: "\<bar>a0\<bar> \<le> 2 ^ 45" unfolding a0_def using t u by (rule seconds_bound)
  then have "\<bar>a0\<bar> \<le> 2 ^ 47" by simp
  then have e1: "\<bar>a1 - a0\<bar> \<le> 1 / 64" unfolding a1_def by (rule toDouble_close)
  from a0 e1 p have "\<bar>a1 - tpd\<bar> \<le> 2 ^ 47" by (simp; linarith)
  then have e2: "\<bar>x - (a1 - tpd)\<bar> \<le> 1 / 64" unfolding x_def by (rule toDouble_close)
  from e1 e2 have c: "\<bar>x - (a0 - tpd)\<bar> \<le> 1 / 32" by linarith
  from c a0 p have m: "\<bar>x\<bar> \<le> 2 ^ 46 + 1 / 32" by (simp; linarith)
  from c m show ?thesis
    by (simp add: js_sub_def js_div_def x_def a1_def a0_def)
qed

lemma calculateElapsedTime_unfold:
  "calculateElapsedTime now (Some a)
     = max 0 \<lfloor>js_sub (js_div (of_int (sessionEnd now a - as_startTime a)) 1000)
                   (as_totalPausedDuration a)\<rfloor>"
  by (simp add: calculateElapsedTime_def sessionEnd_def Math_floor_def Let_def
        split: option.splits)

lemma calculateElapsedTime_close:
  assumes "timeValue (sessionEnd now a)" and "timeValue (as_startTime a)"
    and "\<bar>as_totalPausedDuration a\<bar> \<le> 2 ^ 45"
  shows "\<bar>calculateElapsedTime now (Some a)
          - max 0 \<lfloor>of_int (sessionEnd now a - as_startTime a) / 1000
                     - as_totalPausedDuration a\<rfloor>\<bar> \<le> 1"
proof -
  from elapsed_close [OF assms] have
    "\<bar>js_sub (js_div (of_int (sessionEnd now a - as_startTime a)) 1000) (as_totalPausedDuration a)
       - (of_int (sessionEnd now a - as_startTime a) / 1000 - as_totalPausedDuration a)\<bar> < 1"
    by simp
  then show ?thesis unfolding calculateElapsedTime_unfold by (rule floor_close)
qed

text \<open>
  Without pause time, and for less than \<open>2\<^sup>5\<^sup>1\<close> milliseconds, the two roundings do
  not move the quotient across a whole second.
\<close>

lemma toDouble_twice_floor:
  assumes "\<bar>d\<bar> \<le> (2::int) ^ 51"
  shows "\<lfloor>toDouble (toDouble (of_int d / 1000))\<rfloor> = d div 1000"
proof (cases "d mod 1000 = 0")
  case True
  define k where "k = d div 1000"
  from True have d: "d = k * 1000"
    using div_mult_mod_eq [of d 1000] by (simp add: k_def)
  from assms have "\<bar>k\<bar> < 2 ^ 53" unfolding d by simp
  then have "toDouble (of_int k) = of_int k" by (rule toDouble_int)
  then show ?thesis by (simp add: d)
next
  case False
  define k where "k = d div 1000"
  define r where "r = d mod 1000"
  have d: "d = k * 1000 + r" by (simp add: k_def r_def)
  have r: "1 \<le> r" "r \<le> 999"
    using False by (simp_all add: r_def)
  define a0 :: rat where "a0 = of_int d / 1000"
  define a1 where "a1 = toDouble a0"
  define x where "x = toDouble a1"
  have a0: "a0 = of_int k + of_int r / 1000" by (simp add: a0_def d)
  have lo: "of_int k + 1 / 1000 \<le> a0"
  proof -
    from r(1) have "(1::rat) \<le> of_int r" by (simp only: of_int_1_le_iff)
    then show ?thesis unfolding a0 by simp
  qed
  have hi: "a0 \<le> of_int k + 999 / 1000"
  proof -
    from r(2) have "(of_int r :: rat) \<le> of_int 999" by (simp only: of_int_le_iff)
    then show ?thesis unfolding a0 by simp
  qed
  from assms have "(of_int \<bar>d\<bar> :: rat) \<le> of_int (2 ^ 51)" by (simp only: of_int_le_iff)
  then have ad: "\<bar>of_int d :: rat\<bar> \<le> 2 ^ 51" by simp
  then have m0: "\<bar>a0\<bar> \<le> 2 ^ 51 / 1000" by (simp add: a0_def)
  have "\<bar>a1 - a0\<bar> \<le> \<bar>a0\<bar> / 2 ^ 53" unfolding a1_def by (rule toDouble_err)
  also have "\<dots> \<le> (2 ^ 51 / 1000) / 2 ^ 53" using m0 by (simp add: divide_right_mono)
  finally have e1: "\<bar>a1 - a0\<bar> \<le> 1 / 4000" by simp
  from m0 e1 have m1: "\<bar>a1\<bar> \<le> 2 ^ 52 / 1000" by (simp; linarith)
  have "\<bar>x - a1\<bar> \<le> \<bar>a1\<bar> / 2 ^ 53" unfolding x_def by (rule toDouble_err)
  also have "\<dots> \<le> (2 ^ 52 / 1000) / 2 ^ 53" using m1 by (simp add: divide_right_mono)
  finally have e2: "\<bar>x - a1\<bar> \<le> 1 / 2000" by simp
  from e1 e2 lo hi have "of_int k \<le> x" "x < of_int k + 1" by linarith+
  then have "\<lfloor>x\<rfloor> = k" by (simp add: floor_eq_iff)
  then show ?thesis by (simp add: x_def a1_def a0_def k_def)
qed

lemma calculateElapsedTime_exact:
  assumes "as_totalPausedDuration a = 0"
    and "\<bar>sessionEnd now a - as_startTime a\<bar> \<le> 2 ^ 51"
  shows "calculateElapsedTime now (Some a)
           = max 0 \<lfloor>of_int (sessionEnd now a - as_startTime a) / 1000
                      - as_totalPausedDuration a\<rfloor>"
proof -
  have "\<lfloor>(of_int (sessionEnd now a - as_startTime a) :: rat) / 1000\<rfloor>
          = (sessionEnd now a - as_startTime a) div 1000"
    using floor_divide_of_int_eq [of "sessionEnd now a - as_startTime a" 1000, where ?'a = rat]
    by simp
  with toDouble_twice_floor [OF assms(2)] assms(1) show ?thesis
    by (simp add: calculateElapsedTime_unfold js_sub_def js_div_def)
qed

text \<open>
  C1, as stated: the elapsed time is
  \<open>max(0, floor((end - startTime) / 1000 - totalPausedDuration))\<close>. The code
  evaluates this expression on doubles, and the result can differ from the formula
  by a second. A session started at \<open>T\<close> and resumed after one pause of 900 ms has
  \<open>totalPausedDuration = 900 / 1000\<close>, the double next above 0.9. Read at
  \<open>T + 2900 ms\<close>, the formula gives \<open>floor(2.9 - totalPausedDuration) = 1\<close>, as the
  difference is below 2; the code gives 2, as the double nearest to the difference
  is 2.
\<close>

theorem calculateElapsedTime_formula_fails:
  "as_totalPausedDuration demoResumed = 8106479329266893 / 9007199254740992
   \<and> 9 / 10 < as_totalPausedDuration demoResumed
   \<and> calculateElapsedTime 1700000002900 (Some demoResumed) = 2
   \<and> max 0 \<lfloor>of_int (sessionEnd 1700000002900 demoResumed - as_startTime demoResumed) / 1000
              - as_totalPausedDuration demoResumed\<rfloor> = 1"
  by code_simp

text \<open>
  C1, amended: for every active session the elapsed time is
  \<open>max(0, floor(x))\<close> seconds, where \<open>x\<close> is
  \<open>(end - startTime) / 1000 - totalPausedDuration\<close> evaluated on doubles (the
  quotient rounded to the nearest double, and the difference again), \<open>end\<close> being
  the current time while the session runs and \<open>pausedAt\<close> while it is paused. The
  result is never negative, also when there is no session. It is at most one
  second away from \<open>max(0, floor((end - startTime) / 1000 - totalPausedDuration))\<close>
  in exact arithmetic, for instants that are time values of dates and a pause time
  of at most \<open>2\<^sup>4\<^sup>5\<close> seconds; and it is equal to it when no pause time has
  accumulated and \<open>end\<close> and \<open>startTime\<close> are at most \<open>2\<^sup>5\<^sup>1\<close> ms apart. A session
  started at \<open>T\<close>, never paused, read at \<open>T + 3700 s\<close>, gives exactly 3700.
\<close>

theorem calculateElapsedTime_doubles:
  "0 \<le> calculateElapsedTime now s
   \<and> calculateElapsedTime now (Some a)
       = max 0 \<lfloor>toDouble (toDouble (of_int (sessionEnd now a - as_startTime a) / 1000)
                            - as_totalPausedDuration a)\<rfloor>
   \<and> (timeValue (sessionEnd now a) \<and> timeValue (as_startTime a)
        \<and> \<bar>as_totalPausedDuration a\<bar> \<le> 2 ^ 45 \<longrightarrow>
        \<bar>calculateElapsedTime now (Some a)
          - max 0 \<lfloor>of_int (sessionEnd now a - as_startTime a) / 1000
                     - as_totalPausedDuration a\<rfloor>\<bar> \<le> 1)
   \<and> (as_totalPausedDuration a = 0 \<and> \<bar>sessionEnd now a - as_startTime a\<bar> \<le> 2 ^ 51 \<longrightarrow>
        calculateElapsedTime now (Some a)
          = max 0 \<lfloor>of_int (sessionEnd now a - as_startTime a) / 1000
                     - as_totalPausedDuration a\<rfloor>)
   \<and> calculateElapsedTime (T + 3700 * 1000)
        (Some (a\<lparr>as_startTime := T, as_pausedAt := None, as_totalPausedDuration := 0\<rparr>)) = 3700"
proof -
  have nonneg: "0 \<le> calculateElapsedTime now s"
    by (simp add: calculateElapsedTime_def Let_def split: option.splits)
  have doubles: "calculateElapsedTime now (Some a)
       = max 0 \<lfloor>toDouble (toDouble (of_int (sessionEnd now a - as_startTime a) / 1000)
                            - as_totalPausedDuration a)\<rfloor>"
    by (simp add: calculateElapsedTime_unfold js_sub_def js_div_def)
  have example: "calculateElapsedTime (T + 3700 * 1000)
        (Some (a\<lparr>as_startTime := T, as_pausedAt := None, as_totalPausedDuration := 0\<rparr>)) = 3700"
    by (simp add: calculateElapsedTime_def Math_floor_def Let_def js_div_def js_sub_def
          toDouble_3700)
  from nonneg doubles example
    calculateElapsedTime_close [of now a] calculateElapsedTime_exact [of a now]
  show ?thesis by blast
qed

text \<open>
  The session resumed after a pause of 900 ms, read at \<open>T + 2900 ms\<close>: the code gives
  2, one more than the exact formula. The session never paused, read at
  \<open>T + 3700 s\<close>: the code gives 3700, as the exact formula does.
\<close>

theorem calculateElapsedTime_doubles_witness:
  "\<bar>calculateElapsedTime 1700000002900 (Some demoResumed)
      - max 0 \<lfloor>of_int (sessionEnd 1700000002900 demoResumed - as_startTime demoResumed) / 1000
                 - as_totalPausedDuration demoResumed\<rfloor>\<bar> \<le> 1
   \<and> calculateElapsedTime 1700000002900 (Some demoResumed) = 2
   \<and> calculateElapsedTime 1700003700000 (Some demoRunning)
       = max 0 \<lfloor>of_int (sessionEnd 1700003700000 demoRunning - as_startTime demoRunning) / 1000
                  - as_totalPausedDuration demoRunning\<rfloor>
   \<and> calculateElapsedTime 1700003700000 (Some demoRunning) = 3700"
proof -
  have times: "timeValue (sessionEnd 1700000002900 demoResumed)
      \<and> timeValue (as_startTime demoResumed)
      \<and> \<bar>as_totalPausedDuration demoResumed\<bar> \<le> 2 ^ 45"
    by code_simp
  have short: "as_totalPausedDuration demoRunning = 0
      \<and> \<bar>sessionEnd 1700003700000 demoRunning - as_startTime demoRunning\<bar> \<le> 2 ^ 51"
    by code_simp
  have two: "max 0 \<lfloor>toDouble (toDouble
      (of_int (sessionEnd 1700000002900 demoResumed - as_startTime demoResumed) / 1000)
        - as_totalPausedDuration demoResumed)\<rfloor> = 2"
    by code_simp
  have hour: "max 0 \<lfloor>(of_int (sessionEnd 1700003700000 demoRunning - as_startTime demoRunning)
      :: rat) / 1000 - as_totalPausedDuration demoRunning\<rfloor> = 3700"
    by code_simp
  note resumed = calculateElapsedTime_doubles [where now = 1700000002900 and a = demoResumed]
  note running = calculateElapsedTime_doubles [where now = 1700003700000 and a = demoRunning]
  from resumed [THEN conjunct2, THEN conjunct2, THEN conjunct1, rule_format, OF times]
       resumed [THEN conjunct2, THEN conjunct1]
       running [THEN conjunct2, THEN conjunct2, THEN conjunct2, THEN conjunct1, rule_format, OF short]
       two hour
  show ?thesis by simp
qed

text \<open>
  While a session runs, the service worker evaluates the very expression of the
  calculation utilities, and the two functions agree.
\<close>

lemma elapsed_running_agree:
  "as_pausedAt a = None \<Longrightarrow>
   bg_calculateElapsedTime now (Some a) = calculateElapsedTime now (Some a)"
  by (simp add: bg_calculateElapsedTime_def calculateElapsedTime_def Let_def)

text \<open>
  While a session is paused, the service worker subtracts the pause in progress
  where the calculation utilities stop the clock at the pause. The two expressions
  are equal in exact arithmetic, and their values on doubles are close enough for
  the whole seconds to differ by at most one.
\<close>

lemma elapsed_paused_close:
  assumes p: "as_pausedAt a = Some p"
    and n: "timeValue now" and tp: "timeValue p" and ts: "timeValue (as_startTime a)"
    and t: "\<bar>as_totalPausedDuration a\<bar> \<le> 2 ^ 45"
  shows "\<bar>bg_calculateElapsedTime now (Some a) - calculateElapsedTime now (Some a)\<bar> \<le> 1"
proof -
  define tpd where "tpd = as_totalPausedDuration a"
  define s where "s = as_startTime a"
  define y2 where "y2 = js_sub (js_div (of_int (now - s)) 1000) tpd"
  define c0 :: rat where "c0 = of_int (now - p) / 1000"
  define c1 where "c1 = toDouble c0"
  define x2 where "x2 = toDouble (y2 - c1)"
  define x1 where "x1 = js_sub (js_div (of_int (p - s)) 1000) tpd"
  define E :: rat where "E = of_int (p - s) / 1000 - tpd"
  have E: "E = of_int (now - s) / 1000 - tpd - c0"
    by (simp add: E_def c0_def field_simps)
  from elapsed_close [of p s tpd] tp ts t have e1: "\<bar>x1 - E\<bar> \<le> 1 / 32"
    by (simp add: x1_def E_def s_def tpd_def)
  from elapsed_close [of now s tpd] n ts t have
    e2: "\<bar>y2 - (of_int (now - s) / 1000 - tpd)\<bar> \<le> 1 / 32" and m2: "\<bar>y2\<bar> \<le> 2 ^ 46 + 1 / 32"
    by (simp_all add: y2_def s_def tpd_def)
  have c0: "\<bar>c0\<bar> \<le> 2 ^ 45" unfolding c0_def using n tp by (rule seconds_bound)
  then have "\<bar>c0\<bar> \<le> 2 ^ 47" by simp
  then have e3: "\<bar>c1 - c0\<bar> \<le> 1 / 64" unfolding c1_def by (rule toDouble_close)
  from m2 c0 e3 have "\<bar>y2 - c1\<bar> \<le> 2 ^ 47" by (simp; linarith)
  then have e4: "\<bar>x2 - (y2 - c1)\<bar> \<le> 1 / 64" unfolding x2_def by (rule toDouble_close)
  from e2 e3 e4 have "\<bar>x2 - E\<bar> \<le> 1 / 16" unfolding E by linarith
  with e1 have "\<bar>x2 - x1\<bar> < 1" by (simp; linarith)
  then have "\<bar>max 0 \<lfloor>x2\<rfloor> - max 0 \<lfloor>x1\<rfloor>\<bar> \<le> 1" by (rule floor_close)
  moreover have "bg_calculateElapsedTime now (Some a) = max 0 \<lfloor>x2\<rfloor>"
    using p by (simp add: bg_calculateElapsedTime_def Math_floor_def Let_def x2_def y2_def c1_def
        c0_def s_def tpd_def js_sub_def js_div_def)
  moreover have "calculateElapsedTime now (Some a) = max 0 \<lfloor>x1\<rfloor>"
    using p by (simp add: calculateElapsedTime_def Math_floor_def Let_def x1_def s_def tpd_def)
  ultimately show ?thesis by simp
qed

text \<open>
  C10, as stated: the two implementations of the elapsed time return the same
  value for every active session at the same current time. For a paused session
  they need not: started at \<open>T\<close> and paused at \<open>T + 1 s\<close>, read at \<open>T + 1.9 s\<close>, the
  calculation utilities return \<open>floor(1000 / 1000 - 0) = 1\<close>, and the function of
  the service worker returns \<open>floor(1.9 - 0 - 0.9) = 0\<close>, since the double
  \<open>1.9 - 0.9\<close> is \<open>0.9999999999999999\<close>.
\<close>

theorem elapsed_implementations_diverge:
  "calculateElapsedTime 1700000001900 (Some demoPaused) = 1
   \<and> bg_calculateElapsedTime 1700000001900 (Some demoPaused) = 0
   \<and> bg_calculateElapsedTime 1700000001900 (Some demoPaused)
       \<noteq> calculateElapsedTime 1700000001900 (Some demoPaused)"
  by code_simp

text \<open>
  C10, amended: the two implementations return the same value, at the same
  current time, for every active session that is not paused, and when there is
  no session. These are the sessions on which the timer tick of the service worker
  calls its function: the tick returns before the call when the session is
  paused. (The worker also answers the message \<open>GET_ELAPSED_TIME\<close> with its
  function; nothing in the repository sends that message.) For a paused session
  the two values differ by at most one second (for instants that are time values
  of dates and a pause time of at most \<open>2\<^sup>4\<^sup>5\<close> seconds).
\<close>

theorem elapsed_implementations_agree_running:
  "(as_pausedAt a = None \<longrightarrow>
      bg_calculateElapsedTime now (Some a) = calculateElapsedTime now (Some a))
   \<and> bg_calculateElapsedTime now None = calculateElapsedTime now None
   \<and> (as_pausedAt a = Some p \<and> timeValue now \<and> timeValue p \<and> timeValue (as_startTime a)
        \<and> \<bar>as_totalPausedDuration a\<bar> \<le> 2 ^ 45 \<longrightarrow>
        \<bar>bg_calculateElapsedTime now (Some a) - calculateElapsedTime now (Some a)\<bar> \<le> 1)"
proof -
  have none: "bg_calculateElapsedTime now None = calculateElapsedTime now None"
    by (simp add: bg_calculateElapsedTime_def calculateElapsedTime_def)
  from none elapsed_running_agree [of a now] elapsed_paused_close [of a p now]
  show ?thesis by blast
qed

text \<open>
  The running session of the examples, read an hour and 100 s after its start
  with 12.5 s of pause time: both functions give 3687. The paused session above:
  the two values are 0 and 1.
\<close>

theorem elapsed_implementations_agree_running_witness:
  "as_pausedAt (demoRunning\<lparr>as_totalPausedDuration := 25 / 2\<rparr>) = None
   \<and> bg_calculateElapsedTime 1700003700000 (Some (demoRunning\<lparr>as_totalPausedDuration := 25 / 2\<rparr>))
       = calculateElapsedTime 1700003700000 (Some (demoRunning\<lparr>as_totalPausedDuration := 25 / 2\<rparr>))
   \<and> calculateElapsedTime 1700003700000 (Some (demoRunning\<lparr>as_totalPausedDuration := 25 / 2\<rparr>))
       = 3687
   \<and> as_pausedAt demoPaused = Some 1700000001000
   \<and> \<bar>bg_calculateElapsedTime 1700000001900 (Some demoPaused)
        - calculateElapsedTime 1700000001900 (Some demoPaused)\<bar> \<le> 1"
proof -
  have running: "as_pausedAt (demoRunning\<lparr>as_totalPausedDuration := 25 / 2\<rparr>) = None"
    by (simp add: demoRunning_def)
  have amount: "calculateElapsedTime 1700003700000
      (Some (demoRunning\<lparr>as_totalPausedDuration := 25 / 2\<rparr>)) = 3687"
    by code_simp
  have paused: "as_pausedAt demoPaused = Some 1700000001000 \<and> timeValue 1700000001900
      \<and> timeValue 1700000001000 \<and> timeValue (as_startTime demoPaused)
      \<and> \<bar>as_totalPausedDuration demoPaused\<bar> \<le> 2 ^ 45"
    by code_simp
  from elapsed_implementations_agree_running
         [where a = "demoRunning\<lparr>as_totalPausedDuration := 25 / 2\<rparr>" and now = 1700003700000,
          THEN conjunct1, rule_format, OF running]
       elapsed_implementations_agree_running
         [where a = demoPaused and now = 1700000001900 and p = 1700000001000,
          THEN conjunct2, THEN conjunct2, rule_format, OF paused]
       running amount paused
  show ?thesis by simp
qed

section \<open>Session points: properties\<close>

text \<open>
  C3, as stated: a two-hour session with a completed hard task earns 40 points.
  It earns \<open>2 \<times> 5 + 5 + 15 = 30\<close>.
\<close>

theorem calculateSessionPoints_two_hours_hard_not_40:
  "calculateSessionPoints 7200 True (Some ''hard'') \<noteq> 40"
  by code_simp

text \<open>
  C3, amended: a two-hour session (7200 seconds) with a completed hard task earns
  exactly 30 points, and a one-hour session (3600 seconds) with no task earns
  exactly 5 points.
\<close>

theorem calculateSessionPoints_examples:
  "calculateSessionPoints 7200 True (Some ''hard'') = 30
   \<and> calculateSessionPoints 3600 False None = 5"
  by code_simp

text \<open>
  C4. Without a completed task the session points are \<open>round(d / 3600 \<times> 5)\<close>, for
  every duration \<open>d\<close> and whatever difficulty is passed: the hours times 5, rounded
  to the nearest integer (so at most one half away from it), with no bonus added.
\<close>

theorem calculateSessionPoints_base:
  "calculateSessionPoints d False difficulty = round (d / 3600 * 5)
   \<and> \<bar>of_int (calculateSessionPoints d False difficulty) - d / 3600 * 5\<bar> \<le> 1 / 2"
proof -
  have base: "calculateSessionPoints d False difficulty = round (d / 3600 * 5)"
    by (simp add: calculateSessionPoints_def Math_round_def secondsPerHour_def
          POINTS_PER_HOUR_def Let_def round_def)
  show ?thesis
    unfolding base using of_int_round_abs_le [of "d / 3600 * 5"] by simp
qed

section \<open>Points and streak: properties\<close>

text \<open>
  C9. Whatever the stored gamification record and whatever the amount, positive or
  negative, \<open>updatePoints\<close> leaves \<open>totalPoints\<close> at \<open>max(0, totalPoints + amount)\<close>,
  hence never negative; it never decreases \<open>lifetimePoints\<close>; and it adds the
  amount to \<open>lifetimePoints\<close> and \<open>pointsThisWeek\<close> when the amount is strictly
  positive and leaves both as they were otherwise. The record is written back to
  its slot.
\<close>

theorem updatePoints_invariants:
  "0 \<le> totalPoints (fst (updatePoints amount store))
   \<and> totalPoints (fst (updatePoints amount store))
       = max 0 (totalPoints (getGamification store) + amount)
   \<and> lifetimePoints (getGamification store) \<le> lifetimePoints (fst (updatePoints amount store))
   \<and> lifetimePoints (fst (updatePoints amount store))
       = (if 0 < amount then lifetimePoints (getGamification store) + amount
          else lifetimePoints (getGamification store))
   \<and> pointsThisWeek (fst (updatePoints amount store))
       = (if 0 < amount then pointsThisWeek (getGamification store) + amount
          else pointsThisWeek (getGamification store))
   \<and> snd (updatePoints amount store)
       = (if rejecting store then store
          else store\<lparr>slot_gamification := Some (fst (updatePoints amount store))\<rparr>)"
  by (simp add: updatePoints_def Let_def set_gamification_def)

text \<open>
  On a host whose offset never changes, one local calendar day back is 24 hours
  back, and the date computed as yesterday is the day before today.
\<close>

lemma yesterday_fixedOffset:
  "toISODate (Date_addDays (fixedOffset tz) now (- 1)) = toISODate now - 1"
  by (simp add: toISODate_def Date_addDays_def LocalTime_def toUTC_def fixedOffset_def
        msPerDay_def)

text \<open>
  The state machine of \<open>updateStreak\<close>, with the date that the code computes as
  yesterday: a last study date of today changes nothing; otherwise the streak
  grows by one when the last study date is the computed yesterday and becomes 1
  when it is not, the longest streak follows, the last study date becomes today,
  and the record is written to its slot.
\<close>

lemma updateStreak_unfold:
  "updateStreak host now store =
     (let g = getGamification store;
          today = toISODate now;
          yesterdayStr = toISODate (Date_addDays host now (- 1))
      in if lastStudyDate g = Some today then (g, store)
         else
           (let streak = (if lastStudyDate g = Some yesterdayStr then currentStreak g + 1 else 1);
                g' = g\<lparr>currentStreak := streak,
                       longestStreak := max (longestStreak g) streak,
                       lastStudyDate := Some today\<rparr>
            in (g', if rejecting store then store else store\<lparr>slot_gamification := Some g'\<rparr>)))"
  by (simp add: updateStreak_def Let_def set_gamification_def)

lemma updateStreak_same_day:
  assumes "toISODate now' = toISODate now"
  shows "updateStreak host now' (snd (updateStreak host now store)) = updateStreak host now store"
proof (cases "rejecting store")
  case True
  then show ?thesis
    using assms
    by (simp add: updateStreak_unfold Let_def getGamification_def createGamification_def)
next
  case False
  then show ?thesis
    using assms by (simp add: updateStreak_unfold Let_def getGamification_def)
qed

text \<open>
  The streak of the specification's example, on a host at UTC: last studied the day
  before with a streak of 4, the streak becomes 5, and a second call a minute
  later changes nothing.
\<close>

lemma updateStreak_example:
  "fst (updateStreak (fixedOffset 0) 1700000000000 demoStreakStore)
     = \<lparr>totalPoints = 120, lifetimePoints = 300, pointsThisWeek = 40,
        currentStreak = 5, longestStreak = 9, lastStudyDate = Some 19675\<rparr>
   \<and> updateStreak (fixedOffset 0) 1700000060000
         (snd (updateStreak (fixedOffset 0) 1700000000000 demoStreakStore))
       = updateStreak (fixedOffset 0) 1700000000000 demoStreakStore"
  by code_simp

text \<open>
  C5. \<open>updateStreak\<close> is a state machine on the last study date and the streaks:
  a last study date of today changes nothing, a last study date of yesterday adds
  one to the current streak, and any other sets it to 1. The code takes for
  yesterday the UTC date of the instant one local calendar day before now. In Los
  Angeles on 3 November 2024 at 16:30 local time, which is 00:30 UTC of 4 November,
  that day back has 25 hours and ends on 2 November at 23:30 UTC. With a streak of
  4 and a last study date of 3 November, the day before today, the streak does
  not become 5: it is reset to 1. On a host that is eight hours behind UTC all
  year, the same call gives 5.
\<close>

theorem updateStreak_resets_after_clock_change:
  "toISODate 1730680200000 = 20031
   \<and> toISODate (Date_addDays losAngeles2024 1730680200000 (- 1)) = 20029
   \<and> lastStudyDate (getGamification autumnStreakStore) = Some (toISODate 1730680200000 - 1)
   \<and> currentStreak (getGamification autumnStreakStore) = 4
   \<and> fst (updateStreak losAngeles2024 1730680200000 autumnStreakStore)
       = \<lparr>totalPoints = 120, lifetimePoints = 300, pointsThisWeek = 40,
          currentStreak = 1, longestStreak = 9, lastStudyDate = Some 20031\<rparr>
   \<and> currentStreak (fst (updateStreak (fixedOffset (- 28800000)) 1730680200000 autumnStreakStore))
       = 5"
  by code_simp

section \<open>Beginning a session: properties\<close>

text \<open>
  C2, as stated: beginning a session fails, and leaves the stored active session
  as it is, whenever the goal id does not resolve to a goal or a session is
  already active. It does neither. With a session on \<open>goal_1\<close> active and stored,
  beginning a session on \<open>goal_2\<close> reports nothing and replaces the stored session;
  and with the id \<open>goal_9\<close>, which no goal has, a session is created and stored.
\<close>

theorem handleBeginSession_overwrites:
  "slot_activeSession (p_storage (demoPopup (Some demoRunning) (Some ''goal_2'')))
     = Some demoRunning
   \<and> slot_activeSession (p_storage
        (handleBeginSession 1700000600000 demoForm (demoPopup (Some demoRunning) (Some ''goal_2''))))
     = Some (demoRunning\<lparr>as_goalId := ''goal_2'', as_startTime := 1700000600000\<rparr>)
   \<and> slot_activeSession (p_storage
        (handleBeginSession 1700000600000 demoForm (demoPopup (Some demoRunning) (Some ''goal_2''))))
     \<noteq> slot_activeSession (p_storage (demoPopup (Some demoRunning) (Some ''goal_2'')))
   \<and> p_sessionGoalError
        (handleBeginSession 1700000600000 demoForm (demoPopup (Some demoRunning) (Some ''goal_2'')))
     = []
   \<and> find (\<lambda>g. g_id g = ''goal_9'') (p_goals (demoPopup None (Some ''goal_9''))) = None
   \<and> slot_activeSession (p_storage
        (handleBeginSession 1700000600000 demoForm (demoPopup None (Some ''goal_9''))))
     = Some (demoRunning\<lparr>as_goalId := ''goal_9'', as_startTime := 1700000600000\<rparr>)"
  by (simp add: handleBeginSession_def demoPopup_def demoRunning_def demoGoal_def demoForm_def
        Let_def createActiveSession_def saveActiveSession_def hideStartSessionModal_def
        showActiveSession_def)

text \<open>
  C2, amended: beginning a session fails with the reported message
  \<open>Please select a goal\<close>, changing nothing else (the stored active session and the
  one in memory stay as they are), whenever no goal id is selected. When a goal id
  is selected, the operation does not check that it resolves to a goal or that no
  session is active: it creates an active session for that id with
  \<open>startTime = now\<close>, \<open>pausedAt = null\<close> and \<open>totalPausedDuration = 0\<close>, makes it the
  session in memory and writes it to the slot, in place of whatever was there
  (unless the storage rejects the write).
\<close>

theorem handleBeginSession_guard:
  "(p_selectedGoalId st = None \<or> p_selectedGoalId st = Some [] \<longrightarrow>
      handleBeginSession now form st = st\<lparr>p_sessionGoalError := ''Please select a goal''\<rparr>)
   \<and> (p_selectedGoalId st = Some g \<and> g \<noteq> [] \<longrightarrow>
        p_activeSession (handleBeginSession now form st)
          = Some (createActiveSession now g
                   (if f_taskSelect form = [] then None else Some (f_taskSelect form))
                   (f_mode form) None)
        \<and> p_storage (handleBeginSession now form st)
          = (if rejecting (p_storage st) then p_storage st
             else (p_storage st)
                    \<lparr>slot_activeSession := p_activeSession (handleBeginSession now form st)\<rparr>)
        \<and> p_sessionGoalError (handleBeginSession now form st) = p_sessionGoalError st)
   \<and> as_goalId (createActiveSession now g t m ps) = g
   \<and> as_startTime (createActiveSession now g t m ps) = now
   \<and> as_pausedAt (createActiveSession now g t m ps) = None
   \<and> as_totalPausedDuration (createActiveSession now g t m ps) = 0"
  by (auto simp add: handleBeginSession_def Let_def createActiveSession_def
        saveActiveSession_def hideStartSessionModal_def showActiveSession_def
        split: option.splits)

theorem handleBeginSession_guard_witness:
  "p_selectedGoalId (demoPopup (Some demoRunning) None) = None
   \<and> p_sessionGoalError (handleBeginSession 1700000600000 demoForm (demoPopup (Some demoRunning) None))
       = ''Please select a goal''
   \<and> slot_activeSession (p_storage
        (handleBeginSession 1700000600000 demoForm (demoPopup (Some demoRunning) None)))
       = Some demoRunning
   \<and> p_activeSession (handleBeginSession 1700000600000 demoForm (demoPopup (Some demoRunning) None))
       = Some demoRunning
   \<and> p_selectedGoalId (demoPopup None (Some ''goal_1'')) = Some ''goal_1''
   \<and> p_activeSession (handleBeginSession 1700000600000 demoForm (demoPopup None (Some ''goal_1'')))
       = Some (demoRunning\<lparr>as_startTime := 1700000600000\<rparr>)
   \<and> slot_activeSession (p_storage
        (handleBeginSession 1700000600000 demoForm (demoPopup None (Some ''goal_1''))))
       = Some (demoRunning\<lparr>as_startTime := 1700000600000\<rparr>)"
proof -
  have none: "p_selectedGoalId (demoPopup (Some demoRunning) None) = None"
    by (simp add: demoPopup_def)
  have some: "p_selectedGoalId (demoPopup None (Some ''goal_1'')) = Some ''goal_1''
                \<and> ''goal_1'' \<noteq> []"
    by (simp add: demoPopup_def)
  note refused =
    handleBeginSession_guard [where st = "demoPopup (Some demoRunning) None"
      and now = 1700000600000 and form = demoForm,
      THEN conjunct1, rule_format, OF disjI1, OF none]
  note begun =
    handleBeginSession_guard [where st = "demoPopup None (Some ''goal_1'')"
      and g = "''goal_1''" and now = 1700000600000 and form = demoForm,
      THEN conjunct2, THEN conjunct1, rule_format, OF some]
  show ?thesis
    unfolding refused using begun
    by (simp add: demoPopup_def demoRunning_def demoForm_def createActiveSession_def)
qed

section \<open>Weekly bonus: properties\<close>

lemma weeklyBonus_visit_cases:
  assumes "targetsSet goal"
  shows "weeklyBonus_visit wp goal st =
           (if \<not> evaluated wp goal then st
            else if met wp goal then
              st\<lparr>bl_result :=
                   (bl_result st)
                     \<lparr>goalBonuses := AList.update (g_id goal) 50 (goalBonuses (bl_result st)),
                      wb_total := wb_total (bl_result st) + 50\<rparr>,
                 anyGoalsMet := True\<rparr>
            else st\<lparr>allGoalsMet := False\<rparr>)"
  using assms
  by (auto simp add: weeklyBonus_visit_def evaluated_def met_def targetsMet_def targetsSet_def
        WEEKLY_GOAL_BONUS_def Let_def split: option.splits)

lemma weeklyBonus_fold:
  assumes "list_all targetsSet goals"
  shows "wb_total (bl_result (fold (weeklyBonus_visit wp) goals st))
           = wb_total (bl_result st)
             + 50 * int (length (filter (met wp) (filter (evaluated wp) goals)))
       \<and> perfectWeekBonus (bl_result (fold (weeklyBonus_visit wp) goals st))
           = perfectWeekBonus (bl_result st)
       \<and> allGoalsMet (fold (weeklyBonus_visit wp) goals st)
           = (allGoalsMet st \<and> list_all (met wp) (filter (evaluated wp) goals))
       \<and> anyGoalsMet (fold (weeklyBonus_visit wp) goals st)
           = (anyGoalsMet st \<or> list_ex (met wp) (filter (evaluated wp) goals))
       \<and> map_of (goalBonuses (bl_result (fold (weeklyBonus_visit wp) goals st))) k
           = (if list_ex (\<lambda>g. g_id g = k \<and> met wp g) (filter (evaluated wp) goals) then Some 50
              else map_of (goalBonuses (bl_result st)) k)"
  using assms
proof (induction goals arbitrary: st)
  case Nil
  then show ?case by simp
next
  case (Cons g gs)
  then have g: "targetsSet g" and gs: "list_all targetsSet gs" by simp_all
  note step = weeklyBonus_visit_cases [OF g, of wp st]
  note IH = Cons.IH [OF gs, of "weeklyBonus_visit wp g st"]
  show ?case
  proof (cases "evaluated wp g")
    case False
    with step IH show ?thesis by simp
  next
    case True
    show ?thesis
    proof (cases "met wp g")
      case True
      with \<open>evaluated wp g\<close> step IH show ?thesis
        by (auto simp add: update_conv')
    next
      case False
      with \<open>evaluated wp g\<close> step IH show ?thesis by auto
    qed
  qed
qed

text \<open>
  C6. For every weekly progress and every list of goals (with targets as in the
  data model), the weekly bonus awards a flat 50 for each goal that is evaluated
  (not archived, with a progress entry) and meets its targets, and nothing for the
  others; archived goals and goals without an entry are not looked at. The
  perfect-week bonus of 100 is added once, exactly when some evaluated goal is met
  and no evaluated goal is unmet. A single evaluated goal that is met yields 150;
  with no weekly progress at all the bonus is zero.
\<close>

theorem calculateWeeklyBonus_awards:
  assumes "list_all targetsSet goals"
  shows "wb_total (calculateWeeklyBonus (Some wp) goals)
           = 50 * int (length (filter (met wp) (filter (evaluated wp) goals)))
             + (if list_ex (met wp) (filter (evaluated wp) goals)
                   \<and> list_all (met wp) (filter (evaluated wp) goals) then 100 else 0)
       \<and> perfectWeekBonus (calculateWeeklyBonus (Some wp) goals)
           = (if list_ex (met wp) (filter (evaluated wp) goals)
                 \<and> list_all (met wp) (filter (evaluated wp) goals) then 100 else 0)
       \<and> map_of (goalBonuses (calculateWeeklyBonus (Some wp) goals)) k
           = (if list_ex (\<lambda>g. g_id g = k \<and> met wp g) (filter (evaluated wp) goals) then Some 50
              else None)
       \<and> (goals = [goal] \<and> evaluated wp goal \<and> met wp goal \<longrightarrow>
            wb_total (calculateWeeklyBonus (Some wp) goals) = 150)
       \<and> wb_total (calculateWeeklyBonus None goals) = 0"
proof -
  note fold_facts =
    weeklyBonus_fold [OF assms, of wp
      "\<lparr>bl_result = \<lparr>goalBonuses = [], perfectWeekBonus = 0, wb_total = 0\<rparr>,
        allGoalsMet = True, anyGoalsMet = False\<rparr>"]
  have totals: "wb_total (calculateWeeklyBonus (Some wp) goals)
           = 50 * int (length (filter (met wp) (filter (evaluated wp) goals)))
             + (if list_ex (met wp) (filter (evaluated wp) goals)
                   \<and> list_all (met wp) (filter (evaluated wp) goals) then 100 else 0)"
    using fold_facts
    by (cases goals) (simp_all add: calculateWeeklyBonus_def Let_def PERFECT_WEEK_BONUS_def)
  have perfect: "perfectWeekBonus (calculateWeeklyBonus (Some wp) goals)
           = (if list_ex (met wp) (filter (evaluated wp) goals)
                 \<and> list_all (met wp) (filter (evaluated wp) goals) then 100 else 0)"
    using fold_facts
    by (cases goals) (simp_all add: calculateWeeklyBonus_def Let_def PERFECT_WEEK_BONUS_def)
  have bonuses: "map_of (goalBonuses (calculateWeeklyBonus (Some wp) goals)) k
           = (if list_ex (\<lambda>g. g_id g = k \<and> met wp g) (filter (evaluated wp) goals) then Some 50
              else None)"
    using weeklyBonus_fold [OF assms, of wp
      "\<lparr>bl_result = \<lparr>goalBonuses = [], perfectWeekBonus = 0, wb_total = 0\<rparr>,
        allGoalsMet = True, anyGoalsMet = False\<rparr>" k]
    by (cases goals) (simp_all add: calculateWeeklyBonus_def Let_def PERFECT_WEEK_BONUS_def)
  have single: "goals = [goal] \<and> evaluated wp goal \<and> met wp goal \<longrightarrow>
            wb_total (calculateWeeklyBonus (Some wp) goals) = 150"
    using totals by auto
  have none: "wb_total (calculateWeeklyBonus None goals) = 0"
    by (simp add: calculateWeeklyBonus_def)
  from totals perfect bonuses single none show ?thesis by blast
qed

text \<open>
  Three goals with a target of 10 hours: the first has 10 hours, the second is
  archived (and has 3 hours), the third has no entry. Only the first is
  evaluated; it is met, and the total is 150.
\<close>

theorem calculateWeeklyBonus_awards_witness:
  "list_all targetsSet demoGoals
   \<and> wb_total (calculateWeeklyBonus (Some demoProgress) demoGoals) = 150
   \<and> perfectWeekBonus (calculateWeeklyBonus (Some demoProgress) demoGoals) = 100
   \<and> map_of (goalBonuses (calculateWeeklyBonus (Some demoProgress) demoGoals)) ''goal_1'' = Some 50
   \<and> map_of (goalBonuses (calculateWeeklyBonus (Some demoProgress) demoGoals)) ''goal_2'' = None"
proof -
  have ok: "list_all targetsSet demoGoals"
    by (simp add: demoGoals_def demoGoal_def targetsSet_def)
  have ev: "filter (evaluated demoProgress) demoGoals = [demoGoal ''goal_1'']"
    by (simp add: demoGoals_def demoGoal_def demoProgress_def evaluated_def)
  have m: "met demoProgress (demoGoal ''goal_1'')"
    by (simp add: demoGoal_def demoProgress_def met_def targetsMet_def)
  have id1: "g_id (demoGoal ''goal_1'') = ''goal_1''"
    by (simp add: demoGoal_def)
  from calculateWeeklyBonus_awards [OF ok, of demoProgress "''goal_1''"]
       calculateWeeklyBonus_awards [OF ok, of demoProgress "''goal_2''"]
  show ?thesis
    by (simp add: ok ev m id1)
qed

section \<open>Weekly progress: properties\<close>

subsection \<open>Entries of the progress object\<close>

lemma map_of_known: "(map_of (wp_goals p) k = None) = (k \<notin> knownIds p)"
  by (simp add: knownIds_def map_of_eq_None_iff)

lemma known_entry: "k \<in> knownIds p \<Longrightarrow> \<exists>e. map_of (wp_goals p) k = Some e"
  using map_of_known [of p k] by auto

lemma knownIds_update:
  "map_of (wp_goals p) k = Some e \<Longrightarrow>
   knownIds (p\<lparr>wp_goals := AList.update k v (wp_goals p)\<rparr>) = knownIds p"
  by (auto simp add: knownIds_def dom_update dest: map_of_SomeD intro: rev_image_eqI)

lemma addHoursOf_Cons:
  "addHoursOf amount (s # ss)
     = addHoursOf (js_add amount (js_div (s_duration s) secondsPerHour)) ss"
  by (simp add: addHoursOf_def js_add_def js_div_def secondsPerHour_def)

lemma addHoursOf_Nil: "addHoursOf amount [] = amount"
  by (simp add: addHoursOf_def)

subsection \<open>Initialising the entries\<close>

lemma fold_initGoal:
  "knownIds (fold initGoal goals p) = knownIds p \<union> g_id ` set goals
   \<and> wp_weekStart (fold initGoal goals p) = wp_weekStart p
   \<and> wp_weekEnd (fold initGoal goals p) = wp_weekEnd p
   \<and> totalHours (fold initGoal goals p) = totalHours p
   \<and> totalTasks (fold initGoal goals p) = totalTasks p
   \<and> hoursAt (fold initGoal goals p) k = (if k \<in> g_id ` set goals then 0 else hoursAt p k)
   \<and> tasksAt (fold initGoal goals p) k = (if k \<in> g_id ` set goals then 0 else tasksAt p k)"
proof (induction goals arbitrary: p)
  case Nil
  then show ?case by simp
next
  case (Cons g gs)
  have known: "knownIds (initGoal g p) = insert (g_id g) (knownIds p)"
    by (simp add: initGoal_def knownIds_def dom_update)
  have hours: "hoursAt (initGoal g p) k = (if k = g_id g then 0 else hoursAt p k)"
    by (simp add: initGoal_def hoursAt_def update_conv')
  have tasks: "tasksAt (initGoal g p) k = (if k = g_id g then 0 else tasksAt p k)"
    by (simp add: initGoal_def tasksAt_def update_conv')
  have frame: "wp_weekStart (initGoal g p) = wp_weekStart p
      \<and> wp_weekEnd (initGoal g p) = wp_weekEnd p
      \<and> totalHours (initGoal g p) = totalHours p
      \<and> totalTasks (initGoal g p) = totalTasks p"
    by (simp add: initGoal_def)
  from Cons.IH [of "initGoal g p"] known hours tasks frame show ?case
    by auto
qed

subsection \<open>One session\<close>

lemma sessionVisit_skip:
  "\<not> countedSession ws we (knownIds p) s \<Longrightarrow> sessionVisit ws we s p = Inr p"
  by (auto simp add: sessionVisit_def countedSession_def inWeek_def Let_def map_of_known
        simp del: not_None_eq)

lemma sessionVisit_count:
  assumes "countedSession ws we (knownIds p) s"
  shows "\<exists>e. map_of (wp_goals p) (s_goalId s) = Some e
           \<and> sessionVisit ws we s p =
               Inr (p\<lparr>wp_goals :=
                        AList.update (s_goalId s)
                          (e\<lparr>hoursCompleted :=
                               js_add (hoursCompleted e) (js_div (s_duration s) secondsPerHour)\<rparr>)
                          (wp_goals p),
                      totalHours := js_add (totalHours p) (js_div (s_duration s) secondsPerHour)\<rparr>)"
proof -
  from assms obtain e where e: "map_of (wp_goals p) (s_goalId s) = Some e"
    using known_entry [of "s_goalId s" p] by (auto simp add: countedSession_def)
  with assms show ?thesis
    by (simp add: sessionVisit_def countedSession_def inWeek_def Let_def addHours_def)
qed

text \<open>
  What one visit does to the progress: it never throws; it leaves the keys, the
  week, the task figures alone; and it credits the hours of a counted session to
  the total and to the entry of its goal.
\<close>

lemma sessionVisit_effect:
  "\<exists>p'. sessionVisit ws we s p = Inr p'
     \<and> knownIds p' = knownIds p
     \<and> wp_weekStart p' = wp_weekStart p \<and> wp_weekEnd p' = wp_weekEnd p
     \<and> totalTasks p' = totalTasks p
     \<and> (\<forall>k. tasksAt p' k = tasksAt p k)
     \<and> totalHours p' = addHoursOf (totalHours p) (filter (countedSession ws we (knownIds p)) [s])
     \<and> (\<forall>k. hoursAt p' k = addHoursOf (hoursAt p k)
                (filter (\<lambda>s. countedSession ws we (knownIds p) s \<and> s_goalId s = k) [s]))"
proof (cases "countedSession ws we (knownIds p) s")
  case False
  then show ?thesis by (simp add: sessionVisit_skip addHoursOf_Nil)
next
  case True
  from sessionVisit_count [OF True] obtain e where
    e: "map_of (wp_goals p) (s_goalId s) = Some e" and
    v: "sessionVisit ws we s p =
          Inr (p\<lparr>wp_goals :=
                   AList.update (s_goalId s)
                     (e\<lparr>hoursCompleted :=
                               js_add (hoursCompleted e) (js_div (s_duration s) secondsPerHour)\<rparr>)
                     (wp_goals p),
                 totalHours := js_add (totalHours p) (js_div (s_duration s) secondsPerHour)\<rparr>)"
    by blast
  have known: "knownIds (p\<lparr>wp_goals :=
                   AList.update (s_goalId s)
                     (e\<lparr>hoursCompleted :=
                               js_add (hoursCompleted e) (js_div (s_duration s) secondsPerHour)\<rparr>)
                     (wp_goals p),
                 totalHours := js_add (totalHours p) (js_div (s_duration s) secondsPerHour)\<rparr>) = knownIds p"
    using knownIds_update [OF e] by (simp add: knownIds_def)
  show ?thesis
    unfolding v using True e known
    by (simp add: addHoursOf_Cons addHoursOf_Nil hoursAt_def tasksAt_def update_conv')
qed

lemma sessionVisit_total: "\<exists>p'. sessionVisit ws we s p = Inr p'"
  using sessionVisit_effect [of ws we s p] by blast

lemma sessionVisit_known: "sessionVisit ws we s p = Inr p' \<Longrightarrow> knownIds p' = knownIds p"
  using sessionVisit_effect [of ws we s p] by auto

subsection \<open>The loop over the sessions\<close>

lemma forEach_sessions_effect:
  assumes "knownIds p = K"
  shows "\<exists>p'. forEach (sessionVisit ws we) sessions p = Inr p'
     \<and> knownIds p' = K
     \<and> wp_weekStart p' = wp_weekStart p \<and> wp_weekEnd p' = wp_weekEnd p
     \<and> totalTasks p' = totalTasks p
     \<and> (\<forall>k. tasksAt p' k = tasksAt p k)
     \<and> totalHours p' = addHoursOf (totalHours p) (filter (countedSession ws we K) sessions)
     \<and> (\<forall>k. hoursAt p' k = addHoursOf (hoursAt p k)
                (filter (\<lambda>s. countedSession ws we K s \<and> s_goalId s = k) sessions))"
  using assms
proof (induction sessions arbitrary: p)
  case Nil
  then show ?case by (simp add: addHoursOf_Nil)
next
  case (Cons s ss)
  from sessionVisit_effect [of ws we s p] Cons.prems obtain p1 where
    v: "sessionVisit ws we s p = Inr p1" and
    known1: "knownIds p1 = K" and
    frame1: "wp_weekStart p1 = wp_weekStart p" "wp_weekEnd p1 = wp_weekEnd p"
            "totalTasks p1 = totalTasks p" "\<forall>k. tasksAt p1 k = tasksAt p k" and
    total1: "totalHours p1 = addHoursOf (totalHours p) (filter (countedSession ws we K) [s])" and
    hours1: "\<forall>k. hoursAt p1 k = addHoursOf (hoursAt p k)
                (filter (\<lambda>s. countedSession ws we K s \<and> s_goalId s = k) [s])"
    by auto
  from Cons.IH [OF known1] obtain p' where
    r: "forEach (sessionVisit ws we) ss p1 = Inr p'" and
    known': "knownIds p' = K" and
    frame': "wp_weekStart p' = wp_weekStart p1" "wp_weekEnd p' = wp_weekEnd p1"
            "totalTasks p' = totalTasks p1" "\<forall>k. tasksAt p' k = tasksAt p1 k" and
    total': "totalHours p' = addHoursOf (totalHours p1) (filter (countedSession ws we K) ss)" and
    hours': "\<forall>k. hoursAt p' k = addHoursOf (hoursAt p1 k)
                (filter (\<lambda>s. countedSession ws we K s \<and> s_goalId s = k) ss)"
    by auto
  have run: "forEach (sessionVisit ws we) (s # ss) p = Inr p'"
    using v r by simp
  have total: "totalHours p' = addHoursOf (totalHours p) (filter (countedSession ws we K) (s # ss))"
    using total1 total' by (simp add: addHoursOf_Cons addHoursOf_Nil)
  have hours: "\<forall>k. hoursAt p' k = addHoursOf (hoursAt p k)
                (filter (\<lambda>s. countedSession ws we K s \<and> s_goalId s = k) (s # ss))"
    using hours1 hours' by (simp add: addHoursOf_Cons addHoursOf_Nil)
  from run known' frame1 frame' total hours show ?case by simp
qed

lemma forEach_sessions_filter:
  "knownIds p = K \<Longrightarrow>
   forEach (sessionVisit ws we) sessions p
     = forEach (sessionVisit ws we) (filter (countedSession ws we K) sessions) p"
proof (induction sessions arbitrary: p)
  case Nil
  then show ?case by simp
next
  case (Cons s ss)
  show ?case
  proof (cases "countedSession ws we K s")
    case False
    with Cons show ?thesis by (simp add: sessionVisit_skip)
  next
    case True
    obtain p1 where p1: "sessionVisit ws we s p = Inr p1"
      using sessionVisit_total by blast
    with Cons.prems have "knownIds p1 = K" by (simp add: sessionVisit_known)
    from Cons.IH [OF this] True p1 show ?thesis by simp
  qed
qed

subsection \<open>One task, and the loop over the tasks\<close>

lemma taskVisit_skip:
  "\<not> countedTask ws we (knownIds p) t \<Longrightarrow> taskVisit ws we t p = Inr p"
  by (auto simp add: taskVisit_def countedTask_def inWeek_def Let_def map_of_known
        simp del: not_None_eq split: option.splits)

lemma taskVisit_count:
  assumes "countedTask ws we (knownIds p) t"
  shows "\<exists>e. map_of (wp_goals p) (t_goalId t) = Some e
           \<and> taskVisit ws we t p =
               Inr (p\<lparr>wp_goals :=
                        AList.update (t_goalId t)
                          (e\<lparr>tasksCompleted := tasksCompleted e + 1\<rparr>) (wp_goals p),
                      totalTasks := totalTasks p + 1\<rparr>)"
proof -
  from assms obtain e where e: "map_of (wp_goals p) (t_goalId t) = Some e"
    using known_entry [of "t_goalId t" p] by (auto simp add: countedTask_def)
  with assms show ?thesis
    by (auto simp add: taskVisit_def countedTask_def inWeek_def Let_def addTask_def
          split: option.splits)
qed

lemma taskVisit_effect:
  "\<exists>p'. taskVisit ws we t p = Inr p'
     \<and> knownIds p' = knownIds p
     \<and> wp_weekStart p' = wp_weekStart p \<and> wp_weekEnd p' = wp_weekEnd p
     \<and> totalHours p' = totalHours p
     \<and> (\<forall>k. hoursAt p' k = hoursAt p k)
     \<and> totalTasks p' = totalTasks p + int (length (filter (countedTask ws we (knownIds p)) [t]))
     \<and> (\<forall>k. tasksAt p' k = tasksAt p k
              + int (length (filter (\<lambda>t. countedTask ws we (knownIds p) t \<and> t_goalId t = k) [t])))"
proof (cases "countedTask ws we (knownIds p) t")
  case False
  then show ?thesis by (simp add: taskVisit_skip)
next
  case True
  from taskVisit_count [OF True] obtain e where
    e: "map_of (wp_goals p) (t_goalId t) = Some e" and
    v: "taskVisit ws we t p =
          Inr (p\<lparr>wp_goals :=
                   AList.update (t_goalId t)
                     (e\<lparr>tasksCompleted := tasksCompleted e + 1\<rparr>) (wp_goals p),
                 totalTasks := totalTasks p + 1\<rparr>)"
    by blast
  have known: "knownIds (p\<lparr>wp_goals :=
                   AList.update (t_goalId t)
                     (e\<lparr>tasksCompleted := tasksCompleted e + 1\<rparr>) (wp_goals p),
                 totalTasks := totalTasks p + 1\<rparr>) = knownIds p"
    using knownIds_update [OF e] by (simp add: knownIds_def)
  show ?thesis
    unfolding v using True e known
    by (simp add: hoursAt_def tasksAt_def update_conv')
qed

lemma taskVisit_total: "\<exists>p'. taskVisit ws we t p = Inr p'"
  using taskVisit_effect [of ws we t p] by blast

lemma taskVisit_known: "taskVisit ws we t p = Inr p' \<Longrightarrow> knownIds p' = knownIds p"
  using taskVisit_effect [of ws we t p] by auto

lemma forEach_tasks_effect:
  assumes "knownIds p = K"
  shows "\<exists>p'. forEach (taskVisit ws we) tasks p = Inr p'
     \<and> knownIds p' = K
     \<and> wp_weekStart p' = wp_weekStart p \<and> wp_weekEnd p' = wp_weekEnd p
     \<and> totalHours p' = totalHours p
     \<and> (\<forall>k. hoursAt p' k = hoursAt p k)
     \<and> totalTasks p' = totalTasks p + int (length (filter (countedTask ws we K) tasks))
     \<and> (\<forall>k. tasksAt p' k = tasksAt p k
              + int (length (filter (\<lambda>t. countedTask ws we K t \<and> t_goalId t = k) tasks)))"
  using assms
proof (induction tasks arbitrary: p)
  case Nil
  then show ?case by simp
next
  case (Cons t ts)
  from taskVisit_effect [of ws we t p] Cons.prems obtain p1 where
    v: "taskVisit ws we t p = Inr p1" and
    known1: "knownIds p1 = K" and
    frame1: "wp_weekStart p1 = wp_weekStart p" "wp_weekEnd p1 = wp_weekEnd p"
            "totalHours p1 = totalHours p" "\<forall>k. hoursAt p1 k = hoursAt p k" and
    total1: "totalTasks p1 = totalTasks p + int (length (filter (countedTask ws we K) [t]))" and
    tasks1: "\<forall>k. tasksAt p1 k = tasksAt p k
              + int (length (filter (\<lambda>t. countedTask ws we K t \<and> t_goalId t = k) [t]))"
    by auto
  from Cons.IH [OF known1] obtain p' where
    r: "forEach (taskVisit ws we) ts p1 = Inr p'" and
    known': "knownIds p' = K" and
    frame': "wp_weekStart p' = wp_weekStart p1" "wp_weekEnd p' = wp_weekEnd p1"
            "totalHours p' = totalHours p1" "\<forall>k. hoursAt p' k = hoursAt p1 k" and
    total': "totalTasks p' = totalTasks p1 + int (length (filter (countedTask ws we K) ts))" and
    tasks': "\<forall>k. tasksAt p' k = tasksAt p1 k
              + int (length (filter (\<lambda>t. countedTask ws we K t \<and> t_goalId t = k) ts))"
    by auto
  have run: "forEach (taskVisit ws we) (t # ts) p = Inr p'"
    using v r by simp
  have total: "totalTasks p' = totalTasks p + int (length (filter (countedTask ws we K) (t # ts)))"
    using total1 total' by simp
  have tasks: "\<forall>k. tasksAt p' k = tasksAt p k
              + int (length (filter (\<lambda>t. countedTask ws we K t \<and> t_goalId t = k) (t # ts)))"
    using tasks1 tasks' by simp
  from run known' frame1 frame' total tasks show ?case by simp
qed

lemma forEach_tasks_filter:
  "knownIds p = K \<Longrightarrow>
   forEach (taskVisit ws we) tasks p
     = forEach (taskVisit ws we) (filter (countedTask ws we K) tasks) p"
proof (induction tasks arbitrary: p)
  case Nil
  then show ?case by simp
next
  case (Cons t ts)
  show ?case
  proof (cases "countedTask ws we K t")
    case False
    with Cons show ?thesis by (simp add: taskVisit_skip)
  next
    case True
    obtain p1 where p1: "taskVisit ws we t p = Inr p1"
      using taskVisit_total by blast
    with Cons.prems have "knownIds p1 = K" by (simp add: taskVisit_known)
    from Cons.IH [OF this] True p1 show ?thesis by simp
  qed
qed

subsection \<open>The rounding pass\<close>

lemma roundHours_0: "roundHours 0 = 0"
  by code_simp

lemma roundProgress_effect:
  "knownIds (roundProgress p) = knownIds p
   \<and> wp_weekStart (roundProgress p) = wp_weekStart p
   \<and> wp_weekEnd (roundProgress p) = wp_weekEnd p
   \<and> totalTasks (roundProgress p) = totalTasks p
   \<and> totalHours (roundProgress p) = roundHours (totalHours p)
   \<and> hoursAt (roundProgress p) k = roundHours (hoursAt p k)
   \<and> tasksAt (roundProgress p) k = tasksAt p k"
proof -
  have lookup: "map_of (map (\<lambda>(goalId, entry).
                   (goalId, entry\<lparr>hoursCompleted := roundHours (hoursCompleted entry)\<rparr>)) al) k
        = map_option (\<lambda>entry. entry\<lparr>hoursCompleted := roundHours (hoursCompleted entry)\<rparr>)
            (map_of al k)" for al :: "(string \<times> GoalProgress) list"
    by (induction al) auto
  have keys: "fst ` (\<lambda>(goalId, entry).
                   (goalId, entry\<lparr>hoursCompleted := roundHours (hoursCompleted entry)\<rparr>)) ` A
        = fst ` A" for A :: "(string \<times> GoalProgress) set"
    by (simp add: image_image case_prod_beta)
  show ?thesis
    by (cases "map_of (wp_goals p) k")
       (simp_all add: roundProgress_def knownIds_def keys hoursAt_def tasksAt_def lookup
          roundHours_0)
qed

subsection \<open>The whole aggregation\<close>

lemma calculateWeeklyProgress_figures:
  "\<exists>p. calculateWeeklyProgress host sessions tasks goals weekStart = Inr p
     \<and> wp_weekStart p = weekStart
     \<and> wp_weekEnd p = weekEndOf host weekStart
     \<and> knownIds p = g_id ` set goals
     \<and> totalHours p
         = roundHours (addHoursOf 0 (filter
             (countedSession weekStart (weekEndOf host weekStart) (g_id ` set goals)) sessions))
     \<and> totalTasks p
         = int (length (filter
             (countedTask weekStart (weekEndOf host weekStart) (g_id ` set goals)) tasks))
     \<and> (\<forall>k. hoursAt p k
           = roundHours (addHoursOf 0 (filter
               (\<lambda>s. countedSession weekStart (weekEndOf host weekStart) (g_id ` set goals) s
                    \<and> s_goalId s = k) sessions)))
     \<and> (\<forall>k. tasksAt p k
           = int (length (filter
               (\<lambda>t. countedTask weekStart (weekEndOf host weekStart) (g_id ` set goals) t
                    \<and> t_goalId t = k) tasks)))"
proof -
  define we where "we = weekEndOf host weekStart"
  define K where "K = g_id ` set goals"
  define p0 where "p0 = \<lparr>wp_weekStart = weekStart, wp_weekEnd = we, wp_goals = [],
                          totalHours = 0, totalTasks = 0\<rparr>"
  define p1 where "p1 = fold initGoal goals p0"
  have empty: "knownIds p0 = {}" "\<And>k. hoursAt p0 k = 0" "\<And>k. tasksAt p0 k = 0"
    by (simp_all add: p0_def knownIds_def hoursAt_def tasksAt_def)
  have known1: "knownIds p1 = K"
    using fold_initGoal [of goals p0] empty by (simp add: p1_def K_def)
  have frame1: "wp_weekStart p1 = weekStart" "wp_weekEnd p1 = we"
               "totalHours p1 = 0" "totalTasks p1 = 0"
    using fold_initGoal [of goals p0] by (simp_all add: p1_def p0_def)
  have zero1: "hoursAt p1 k = 0" "tasksAt p1 k = 0" for k
    using fold_initGoal [of goals p0 k] empty by (simp_all add: p1_def)
  from forEach_sessions_effect [OF known1, of weekStart we sessions] obtain p2 where
    run2: "forEach (sessionVisit weekStart we) sessions p1 = Inr p2" and
    known2: "knownIds p2 = K" and
    frame2: "wp_weekStart p2 = wp_weekStart p1" "wp_weekEnd p2 = wp_weekEnd p1"
            "totalTasks p2 = totalTasks p1" "\<forall>k. tasksAt p2 k = tasksAt p1 k" and
    total2: "totalHours p2
               = addHoursOf (totalHours p1) (filter (countedSession weekStart we K) sessions)" and
    hours2: "\<forall>k. hoursAt p2 k = addHoursOf (hoursAt p1 k)
                (filter (\<lambda>s. countedSession weekStart we K s \<and> s_goalId s = k) sessions)"
    by auto
  from forEach_tasks_effect [OF known2, of weekStart we tasks] obtain p3 where
    run3: "forEach (taskVisit weekStart we) tasks p2 = Inr p3" and
    known3: "knownIds p3 = K" and
    frame3: "wp_weekStart p3 = wp_weekStart p2" "wp_weekEnd p3 = wp_weekEnd p2"
            "totalHours p3 = totalHours p2" "\<forall>k. hoursAt p3 k = hoursAt p2 k" and
    total3: "totalTasks p3 = totalTasks p2 + int (length (filter (countedTask weekStart we K) tasks))" and
    tasks3: "\<forall>k. tasksAt p3 k = tasksAt p2 k
              + int (length (filter (\<lambda>t. countedTask weekStart we K t \<and> t_goalId t = k) tasks))"
    by auto
  have result: "calculateWeeklyProgress host sessions tasks goals weekStart = Inr (roundProgress p3)"
    using run2 run3
    by (simp add: calculateWeeklyProgress_def Let_def weekEndOf_def [symmetric]
          we_def [symmetric] p0_def [symmetric] p1_def [symmetric])
  have hours: "hoursAt (roundProgress p3) k
      = roundHours (addHoursOf 0 (filter (\<lambda>s. countedSession weekStart we K s \<and> s_goalId s = k) sessions))"
    for k
    using roundProgress_effect [of p3 k] frame3 hours2 zero1 by simp
  have tasks: "tasksAt (roundProgress p3) k
      = int (length (filter (\<lambda>t. countedTask weekStart we K t \<and> t_goalId t = k) tasks))"
    for k
    using roundProgress_effect [of p3 k] tasks3 frame2 zero1 by simp
  have totals: "totalHours (roundProgress p3)
        = roundHours (addHoursOf 0 (filter (countedSession weekStart we K) sessions))"
      "totalTasks (roundProgress p3) = int (length (filter (countedTask weekStart we K) tasks))"
    using roundProgress_effect [of p3] frame3 total2 frame1 total3 frame2 by simp_all
  have frame: "wp_weekStart (roundProgress p3) = weekStart"
      "wp_weekEnd (roundProgress p3) = we" "knownIds (roundProgress p3) = K"
    using roundProgress_effect [of p3] frame3 frame2 frame1 known3 by simp_all
  from result hours tasks totals frame show ?thesis
    unfolding we_def K_def by blast
qed

lemma calculateWeeklyProgress_filter:
  "calculateWeeklyProgress host sessions tasks goals weekStart
     = calculateWeeklyProgress host
         (filter (countedSession weekStart (weekEndOf host weekStart) (g_id ` set goals)) sessions)
         (filter (countedTask weekStart (weekEndOf host weekStart) (g_id ` set goals)) tasks)
         goals weekStart"
proof -
  define we where "we = weekEndOf host weekStart"
  define K where "K = g_id ` set goals"
  define p1 where "p1 = fold initGoal goals
      \<lparr>wp_weekStart = weekStart, wp_weekEnd = we, wp_goals = [], totalHours = 0, totalTasks = 0\<rparr>"
  have known1: "knownIds p1 = K"
    using fold_initGoal [of goals
      "\<lparr>wp_weekStart = weekStart, wp_weekEnd = we, wp_goals = [], totalHours = 0, totalTasks = 0\<rparr>"]
    by (simp add: p1_def K_def knownIds_def)
  from forEach_sessions_effect [OF known1, of weekStart we sessions] obtain p2 where
    run2: "forEach (sessionVisit weekStart we) sessions p1 = Inr p2" and
    known2: "knownIds p2 = K"
    by auto
  have same2: "forEach (sessionVisit weekStart we) (filter (countedSession weekStart we K) sessions) p1
      = Inr p2"
    using forEach_sessions_filter [OF known1, of weekStart we sessions] run2 by simp
  have same3: "forEach (taskVisit weekStart we) (filter (countedTask weekStart we K) tasks) p2
      = forEach (taskVisit weekStart we) tasks p2"
    using forEach_tasks_filter [OF known2, of weekStart we tasks] by simp
  show ?thesis
    using run2 same2 same3
    by (simp add: calculateWeeklyProgress_def Let_def weekEndOf_def [symmetric]
          we_def [symmetric] K_def [symmetric] p1_def [symmetric])
qed

text \<open>
  The hundredths are cut out of doubles. A session of 3618 s is 1.005 hours; the
  double nearest to 1.005 lies below it, and so does its product with 100 below
  100.5: the hours are rounded to 1, where exact arithmetic would give 1.01.
\<close>

lemma roundHours_3618:
  "roundHours (addHoursOf 0 [demoSession ''goal_1'' 1700000000000 3618]) = 1
   \<and> (of_int (Math_round (3618 / 3600 * 100)) :: rat) / 100 = 101 / 100"
  by code_simp

subsection \<open>The week end\<close>










text \<open>
  C8. A session or a completed task whose goal id has no entry (no goal of the
  given list has that id) contributes nothing: wherever it stands in its list,
  the result is the one without it, per-goal figures and totals alike. The
  aggregation never fails, whatever the ids are. Only the sessions whose start
  date, and the completed tasks whose completion date, lie in the inclusive range
  from the week start to the week end, and whose goal id is known, are counted:
  the result is the one computed from these alone.
\<close>

theorem calculateWeeklyProgress_skips_unknown:
  "(\<exists>p. calculateWeeklyProgress host sessions tasks goals weekStart = Inr p)
   \<and> calculateWeeklyProgress host sessions tasks goals weekStart
       = calculateWeeklyProgress host
           (filter (countedSession weekStart (weekEndOf host weekStart) (g_id ` set goals)) sessions)
           (filter (countedTask weekStart (weekEndOf host weekStart) (g_id ` set goals)) tasks)
           goals weekStart
   \<and> (s_goalId s \<notin> g_id ` set goals \<longrightarrow>
        calculateWeeklyProgress host (before @ s # after) tasks goals weekStart
          = calculateWeeklyProgress host (before @ after) tasks goals weekStart)
   \<and> (t_goalId t \<notin> g_id ` set goals \<longrightarrow>
        calculateWeeklyProgress host sessions (earlier @ t # later) goals weekStart
          = calculateWeeklyProgress host sessions (earlier @ later) goals weekStart)"
proof -
  have total: "\<exists>p. calculateWeeklyProgress host sessions tasks goals weekStart = Inr p"
    using calculateWeeklyProgress_figures [of host sessions tasks goals weekStart] by blast
  have session: "calculateWeeklyProgress host (before @ s # after) tasks goals weekStart
          = calculateWeeklyProgress host (before @ after) tasks goals weekStart"
    if "s_goalId s \<notin> g_id ` set goals"
  proof -
    from that have "filter (countedSession weekStart (weekEndOf host weekStart) (g_id ` set goals))
                      (before @ s # after)
          = filter (countedSession weekStart (weekEndOf host weekStart) (g_id ` set goals))
                      (before @ after)"
      by (simp add: countedSession_def)
    then show ?thesis
      using calculateWeeklyProgress_filter [of host "before @ s # after" tasks goals weekStart]
            calculateWeeklyProgress_filter [of host "before @ after" tasks goals weekStart]
      by simp
  qed
  have task: "calculateWeeklyProgress host sessions (earlier @ t # later) goals weekStart
          = calculateWeeklyProgress host sessions (earlier @ later) goals weekStart"
    if "t_goalId t \<notin> g_id ` set goals"
  proof -
    from that have "filter (countedTask weekStart (weekEndOf host weekStart) (g_id ` set goals))
                      (earlier @ t # later)
          = filter (countedTask weekStart (weekEndOf host weekStart) (g_id ` set goals))
                      (earlier @ later)"
      by (simp add: countedTask_def)
    then show ?thesis
      using calculateWeeklyProgress_filter [of host sessions "earlier @ t # later" goals weekStart]
            calculateWeeklyProgress_filter [of host sessions "earlier @ later" goals weekStart]
      by simp
  qed
  from total session task
    calculateWeeklyProgress_filter [of host sessions tasks goals weekStart]
  show ?thesis by blast
qed

text \<open>
  The session on \<open>goal_9\<close> of the example week changes nothing: the result is the
  one of the week without it.
\<close>

theorem calculateWeeklyProgress_skips_unknown_witness:
  "s_goalId (demoSession ''goal_9'' 1700000000000 3600) \<notin> g_id ` set demoActiveGoals
   \<and> calculateWeeklyProgress (fixedOffset 0)
        ([demoSession ''goal_1'' 1700000000000 5400]
           @ demoSession ''goal_9'' 1700000000000 3600
           # [demoSession ''goal_1'' 1701300000000 7200])
        demoTasks demoActiveGoals 19674
     = calculateWeeklyProgress (fixedOffset 0)
        ([demoSession ''goal_1'' 1700000000000 5400]
           @ [demoSession ''goal_1'' 1701300000000 7200])
        demoTasks demoActiveGoals 19674"
proof -
  have unknown:
    "s_goalId (demoSession ''goal_9'' 1700000000000 3600) \<notin> g_id ` set demoActiveGoals"
    by (simp add: demoSession_def demoActiveGoals_def demoGoal_def)
  from calculateWeeklyProgress_skips_unknown
         [where s = "demoSession ''goal_9'' 1700000000000 3600"
            and goals = demoActiveGoals and host = "fixedOffset 0" and tasks = demoTasks
            and weekStart = 19674
            and before = "[demoSession ''goal_1'' 1700000000000 5400]"
            and after = "[demoSession ''goal_1'' 1701300000000 7200]",
          THEN conjunct2, THEN conjunct2, THEN conjunct1, rule_format, OF unknown]
       unknown
  show ?thesis by simp
qed

end
